theory Spec2Isabelle
  imports Main "HOL-Library.Sublist" "HOL-Library.AList"
begin

section \<open>Python strings\<close>

text \<open>
  \<open>split sep s\<close> is Python's \<open>s.split(sep)\<close> for a one-character separator: the text is
  cut at every occurrence of the separator, empty pieces are kept, and the result always
  has at least one piece (so the first branch of the \<open>case\<close> below is never taken).
\<close>

fun split :: "char \<Rightarrow> string \<Rightarrow> string list" where
  "split sep [] = [[]]"
| "split sep (c # cs) =
     (if c = sep then [] # split sep cs
      else (case split sep cs of [] \<Rightarrow> [[c]] | w # ws \<Rightarrow> (c # w) # ws))"

text \<open>\<open>join sep xs\<close> is Python's \<open>sep.join(xs)\<close>.\<close>

fun join :: "string \<Rightarrow> string list \<Rightarrow> string" where
  "join sep [] = []"
| "join sep [x] = x"
| "join sep (x # y # ys) = x @ sep @ join sep (y # ys)"

text \<open>
  \<open>split_whitespace s\<close> is \<open>s.split()\<close>: the text is cut at runs of whitespace and no
  empty piece is returned. The first argument of the loop is the word being read.
\<close>

definition isspace :: "char \<Rightarrow> bool" where
  "isspace c = (c \<in> {CHR '' '', CHR 0x09, CHR 0x0A, CHR 0x0B, CHR 0x0C, CHR 0x0D})"

fun split_whitespace_loop :: "string \<Rightarrow> string \<Rightarrow> string list" where
  "split_whitespace_loop word [] = (if word = [] then [] else [word])"
| "split_whitespace_loop word (c # cs) =
     (if isspace c
      then (if word = [] then split_whitespace_loop [] cs
            else word # split_whitespace_loop [] cs)
      else split_whitespace_loop (word @ [c]) cs)"

definition split_whitespace :: "string \<Rightarrow> string list" where
  "split_whitespace s = split_whitespace_loop [] s"

text \<open>
  \<open>splitlines s\<close> is \<open>s.splitlines()\<close> of a byte string: lines end at LF, CR or CR LF,
  the line ends are dropped, and a final line end opens no further line. The flag
  says that the previous character was a CR, whose LF belongs to the same line end.
\<close>

fun splitlines_loop :: "string \<Rightarrow> bool \<Rightarrow> string \<Rightarrow> string list" where
  "splitlines_loop line after_cr [] = (if line = [] then [] else [line])"
| "splitlines_loop line after_cr (c # cs) =
     (if c = CHR 0x0A \<and> after_cr then splitlines_loop line False cs
      else if c = CHR 0x0A then line # splitlines_loop [] False cs
      else if c = CHR 0x0D then line # splitlines_loop [] True cs
      else splitlines_loop (line @ [c]) False cs)"

definition splitlines :: "string \<Rightarrow> string list" where
  "splitlines s = splitlines_loop [] False s"

definition strip :: "string \<Rightarrow> string" where
  "strip s = rev (dropWhile isspace (rev (dropWhile isspace s)))"

definition endswith :: "string \<Rightarrow> string \<Rightarrow> bool" where
  "endswith s suffix_text = suffix suffix_text s"

definition replace_char :: "char \<Rightarrow> char \<Rightarrow> string \<Rightarrow> string" where
  "replace_char old new s = map (\<lambda>c. if c = old then new else c) s"

section \<open>Values, errors and the state of a run\<close>

text \<open>
  The values that reach this code: what docopt puts into the arguments dictionary
  (\<open>None\<close>, booleans, strings) and what the code stores into the configuration parser
  (strings and one list of strings).
\<close>

datatype pyvalue = PyNone | PyBool bool | PyStr string | PyList "string list"

fun truthy :: "pyvalue \<Rightarrow> bool" where
  "truthy PyNone = False"
| "truthy (PyBool b) = b"
| "truthy (PyStr s) = (s \<noteq> [])"
| "truthy (PyList xs) = (xs \<noteq> [])"

text \<open>\<open>str(v)\<close>; the items of a list are shown in single quotes, without escapes.\<close>

fun py_str :: "pyvalue \<Rightarrow> string" where
  "py_str PyNone = ''None''"
| "py_str (PyBool b) = (if b then ''True'' else ''False'')"
| "py_str (PyStr s) = s"
| "py_str (PyList xs) = ''['' @ join '', '' (map (\<lambda>x. [CHR 0x27] @ x @ [CHR 0x27]) xs) @ '']''"

text \<open>\<open>a or b\<close>\<close>

definition py_or :: "pyvalue \<Rightarrow> pyvalue \<Rightarrow> pyvalue" where
  "py_or a b = (if truthy a then a else b)"

type_synonym arguments = "string \<rightharpoonup> pyvalue"

text \<open>\<open>arguments.get(key)\<close> and \<open>arguments.get(key, default)\<close>\<close>

definition get_arg :: "arguments \<Rightarrow> string \<Rightarrow> pyvalue" where
  "get_arg arguments key = (case arguments key of None \<Rightarrow> PyNone | Some v \<Rightarrow> v)"

definition get_arg_default :: "arguments \<Rightarrow> string \<Rightarrow> pyvalue \<Rightarrow> pyvalue" where
  "get_arg_default arguments key default_value =
     (case arguments key of None \<Rightarrow> default_value | Some v \<Rightarrow> v)"

text \<open>
  Every way a call can end other than by returning. \<open>SystemExit n\<close> is
  \<open>raise SystemExit(n)\<close>; \<open>ExecutionError\<close> is a failed external process;
  \<open>LibraryError\<close> is an exception of the version-control libraries; the others are the
  Python exceptions of the same names (\<open>OSError\<close> and \<open>IOError\<close> are what the operating
  system's calls raise).
\<close>

datatype error =
    SystemExit int
  | ExecutionError
  | LibraryError
  | TypeError
  | AttributeError
  | NoSectionError
  | NoOptionError
  | ParsingError
  | IOError
  | OSError

text \<open>
  The configuration parser holds sections in file order, each an association list of
  options. In memory a value is whatever was stored; in the file it is text.
\<close>

type_synonym config = "(string \<times> (string \<times> pyvalue) list) list"
type_synonym ini_document = "(string \<times> (string \<times> string) list) list"

text \<open>
  A file is either an ini document, held as the sections and options the parser reads
  from it, or any other text.
\<close>

datatype content = Ini ini_document | Text string

record filesystem =
  dirs :: "string set"
  files :: "string \<rightharpoonup> content"

text \<open>
  What the program asks of the world outside it, in the order it asks: an external
  process, a call into the version-control libraries (gitpy, gitflow), a file opened
  for writing.
\<close>

datatype event =
    Execute "string list"
  | Library string "string list"
  | FileWrite string

text \<open>
  The state of the process: its working directory (an absolute path), the file system
  (keyed by absolute path), the module-level list \<open>BUILDOUT_PARAMETERS\<close>, and the
  events so far.
\<close>

record world =
  cwd :: string
  fs :: filesystem
  BUILDOUT_PARAMETERS :: "string list"
  events :: "event list"

text \<open>
  What a run cannot change: the platform, the interpreter, and the behaviour of what is
  called but not part of this code. \<open>external\<close> tells, for an external process or a
  library call and the file system it finds, whether it succeeds and what file system it
  leaves. The helpers \<open>is_windows\<close>, \<open>is_executable_exists\<close> and
  \<open>is_buildout_executable_using_isolated_python\<close> of the module
  \<open>infi.projector.helper.assertions\<close>, the skeleton's \<open>get_files\<close> and the result of
  reading the interpreter's shebang line are parameters as well, and so is the value that
  \<open>uuid1()\<close> returns.
\<close>

record env =
  external :: "event \<Rightarrow> filesystem \<Rightarrow> bool \<times> filesystem"
  path_sep :: char
  os_name :: string
  sys_executable :: string
  sys_real_prefix :: bool
  platform_system :: string
  is_windows :: bool
  executable_from_shebang_line :: string
  is_executable_exists :: "world \<Rightarrow> string \<Rightarrow> bool"
  is_buildout_executable_using_isolated_python :: "world \<Rightarrow> bool"
  get_files :: "string list"
  uuid1 :: string

subsection \<open>Programs: state passing with exceptions\<close>

text \<open>
  A piece of program takes the world and returns either a value or the exception it
  raised, and the world it leaves. Effects made before an exception stay.
\<close>

type_synonym 'a prog = "world \<Rightarrow> (error + 'a) \<times> world"

definition succeed :: "'a \<Rightarrow> 'a prog" where
  "succeed x = (\<lambda>w. (Inr x, w))"

definition raise :: "error \<Rightarrow> 'a prog" where
  "raise e = (\<lambda>w. (Inl e, w))"

definition bind_prog :: "'a prog \<Rightarrow> ('a \<Rightarrow> 'b prog) \<Rightarrow> 'b prog" where
  "bind_prog m f = (\<lambda>w. case m w of (Inl e, w') \<Rightarrow> (Inl e, w') | (Inr x, w') \<Rightarrow> f x w')"

definition then_prog :: "unit prog \<Rightarrow> 'a prog \<Rightarrow> 'a prog" where
  "then_prog m n = bind_prog m (\<lambda>_. n)"

text \<open>A block of statements: each runs after the one before it returned.\<close>

fun block :: "unit prog list \<Rightarrow> unit prog" where
  "block [] = succeed ()"
| "block (m # ms) = then_prog m (block ms)"

text \<open>\<open>if condition: statement\<close>\<close>

definition when_prog :: "bool \<Rightarrow> unit prog \<Rightarrow> unit prog" where
  "when_prog condition m = (if condition then m else succeed ())"

text \<open>
  \<open>try: body finally: final\<close>. The final part runs however the body ended; if it raises,
  its exception replaces the body's outcome.
\<close>

definition try_finally :: "'a prog \<Rightarrow> unit prog \<Rightarrow> 'a prog" where
  "try_finally body final =
     (\<lambda>w. case body w of (outcome, w') \<Rightarrow>
        (case final w' of (Inl e, w'') \<Rightarrow> (Inl e, w'') | (Inr _, w'') \<Rightarrow> (outcome, w'')))"

definition modify :: "(world \<Rightarrow> world) \<Rightarrow> unit prog" where
  "modify f = (\<lambda>w. (Inr (), f w))"

text \<open>
  An external process or library call: the event is recorded, the file system becomes
  what the call leaves, and a failure raises the given exception.
\<close>

definition call_external :: "env \<Rightarrow> error \<Rightarrow> event \<Rightarrow> unit prog" where
  "call_external e failure ev =
     (\<lambda>w. case external e ev (fs w) of (ok, fs') \<Rightarrow>
        (if ok then Inr () else Inl failure, w\<lparr>fs := fs', events := events w @ [ev]\<rparr>))"

section \<open>The helper module \<open>infi.projector.helper.utils\<close>\<close>

subsection \<open>Paths and the file system\<close>

text \<open>
  \<open>os.path.join\<close> of two parts, with the platform's separator, and \<open>os.path.abspath\<close>.
  The program passes \<open>os.curdir\<close>, plain names and paths read from the configuration;
  the cleaning of \<open>..\<close> and of doubled separators inside a path is not modelled.
\<close>

definition path_join :: "env \<Rightarrow> string \<Rightarrow> string \<Rightarrow> string" where
  "path_join e a b =
     (if b \<noteq> [] \<and> hd b = path_sep e then b
      else if a = [] \<or> last a = path_sep e then a @ b
      else a @ [path_sep e] @ b)"

definition curdir :: string where
  "curdir = ''.''"

definition abspath :: "env \<Rightarrow> world \<Rightarrow> string \<Rightarrow> string" where
  "abspath e w path = (if path = curdir \<or> path = [] then cwd w else path_join e (cwd w) path)"

definition basename :: "env \<Rightarrow> string \<Rightarrow> string" where
  "basename e path = last (split (path_sep e) path)"

definition isdir :: "env \<Rightarrow> world \<Rightarrow> string \<Rightarrow> bool" where
  "isdir e w path = (abspath e w path \<in> dirs (fs w))"

definition isfile :: "env \<Rightarrow> world \<Rightarrow> string \<Rightarrow> bool" where
  "isfile e w path = (files (fs w) (abspath e w path) \<noteq> None)"

definition exists :: "env \<Rightarrow> world \<Rightarrow> string \<Rightarrow> bool" where
  "exists e w path = (isdir e w path \<or> isfile e w path)"

text \<open>
  The calls that change the file system fail where the file system says they must, and
  raise \<open>OSError\<close> (\<open>IOError\<close> for \<open>open\<close>) without changing anything:
  \<^item> \<open>os.mkdir\<close> when the path exists or the directory above it does not;
  \<^item> \<open>os.makedirs\<close> when the name is empty, when the path exists, or when one of the
    paths above it is a regular file; otherwise it also creates the directories above;
  \<^item> \<open>os.remove\<close> when the path is no file, \<open>shutil.rmtree\<close> when it is no directory;
  \<^item> \<open>open(path, 'w')\<close> and \<open>open(path, 'a')\<close> when the path is a directory or the
    directory above it does not exist.
  Access permissions are not part of the file system here: every directory and file in
  it is one the process may enter, read, write and remove.
\<close>

definition parent_directory :: "env \<Rightarrow> string \<Rightarrow> string" where
  "parent_directory e path =
     (if path_sep e \<notin> set path then []
      else let head = join [path_sep e] (butlast (split (path_sep e) path))
           in if head = [] then [path_sep e] else head)"

definition parent_dirs :: "env \<Rightarrow> string \<Rightarrow> string list" where
  "parent_dirs e path =
     filter (\<lambda>p. p \<noteq> [])
       (map (join [path_sep e]) (tl (prefixes (butlast (split (path_sep e) path)))))"

definition mkdir :: "env \<Rightarrow> string \<Rightarrow> unit prog" where
  "mkdir e path =
     (\<lambda>w. let target = abspath e w path
           in if exists e w path \<or> parent_directory e target \<notin> dirs (fs w)
              then raise OSError w
              else modify (\<lambda>w. w\<lparr>fs := (fs w)\<lparr>dirs := insert target (dirs (fs w))\<rparr>\<rparr>) w)"

definition makedirs :: "env \<Rightarrow> string \<Rightarrow> unit prog" where
  "makedirs e path =
     (\<lambda>w. let target = abspath e w path
           in if path = [] \<or> exists e w path
                 \<or> (\<exists>p \<in> set (parent_dirs e target).
                       files (fs w) p \<noteq> None \<and> p \<notin> dirs (fs w))
              then raise OSError w
              else modify (\<lambda>w. w\<lparr>fs := (fs w)\<lparr>dirs :=
                     insert target (set (parent_dirs e target) \<union> dirs (fs w))\<rparr>\<rparr>) w)"

definition remove :: "env \<Rightarrow> string \<Rightarrow> unit prog" where
  "remove e path =
     (\<lambda>w. if isfile e w path
           then modify (\<lambda>w. w\<lparr>fs := (fs w)\<lparr>files :=
                  (files (fs w))(abspath e w path := None)\<rparr>\<rparr>) w
           else raise OSError w)"

definition below :: "env \<Rightarrow> string \<Rightarrow> string \<Rightarrow> bool" where
  "below e directory path = (path = directory \<or> prefix (directory @ [path_sep e]) path)"

definition rmtree :: "env \<Rightarrow> string \<Rightarrow> unit prog" where
  "rmtree e path =
     (\<lambda>w. if isdir e w path
           then modify (\<lambda>w. w\<lparr>fs := (fs w)\<lparr>
                  dirs := {d \<in> dirs (fs w). \<not> below e (abspath e w path) d},
                  files := (\<lambda>f. if below e (abspath e w path) f then None
                                 else files (fs w) f)\<rparr>\<rparr>) w
           else raise OSError w)"

text \<open>\<open>with open(path, 'w') as fd: fd.write(...)\<close>: the file holds what was written.\<close>

definition write_file :: "env \<Rightarrow> string \<Rightarrow> content \<Rightarrow> unit prog" where
  "write_file e path written =
     (\<lambda>w. let target = abspath e w path
           in if isdir e w path \<or> parent_directory e target \<notin> dirs (fs w)
              then raise IOError w
              else modify (\<lambda>w. w\<lparr>fs := (fs w)\<lparr>files := (files (fs w))(target \<mapsto> written)\<rparr>,
                                  events := events w @ [FileWrite target]\<rparr>) w)"

text \<open>
  \<open>with open(path, 'a') as fd: fd.write(text)\<close>, on a text file or a new file; the program
  appends to \<open>.gitignore\<close> only.
\<close>

definition append_file :: "env \<Rightarrow> string \<Rightarrow> string \<Rightarrow> unit prog" where
  "append_file e path added =
     (\<lambda>w. case files (fs w) (abspath e w path) of
        None \<Rightarrow> write_file e path (Text added) w
      | Some (Text old) \<Rightarrow> write_file e path (Text (old @ added)) w
      | Some (Ini _) \<Rightarrow> raise IOError w)"

text \<open>
  \<open>shutil.copy(src, dst)\<close>: a source that is no file raises; a destination that is a
  directory receives a file of the source's name.
\<close>

definition copy :: "env \<Rightarrow> string \<Rightarrow> string \<Rightarrow> unit prog" where
  "copy e src dst =
     (\<lambda>w. case files (fs w) (abspath e w src) of
        None \<Rightarrow> raise IOError w
      | Some c \<Rightarrow>
          write_file e (if isdir e w dst then path_join e dst (basename e src) else dst) c w)"

subsection \<open>The working directory\<close>

text \<open>
  \<^verbatim>\<open>
  def _chdir_and_log(path):
      chdir(path)

  @contextmanager
  def chdir(path):
      path = abspath(path)
      current_dir = abspath(curdir)
      _chdir_and_log(path)
      try:
          yield
      finally:
          _chdir_and_log(current_dir)
  \<close>
  Both calls of \<open>_chdir_and_log\<close> pass an absolute path. \<open>os.chdir\<close> makes it the
  working directory, and raises \<open>OSError\<close> when it is no directory (it never was one, or
  it has been removed since). The first call is outside the \<open>try\<close>: when it raises, the
  body does not run. The body of the \<open>with\<close> statement is the argument \<open>body\<close>.
\<close>

definition chdir_and_log :: "string \<Rightarrow> unit prog" where
  "chdir_and_log path =
     (\<lambda>w. if path \<in> dirs (fs w) then modify (\<lambda>w. w\<lparr>cwd := path\<rparr>) w
           else raise OSError w)"

definition chdir :: "env \<Rightarrow> string \<Rightarrow> 'a prog \<Rightarrow> 'a prog" where
  "chdir e path body =
     (\<lambda>w. let path' = abspath e w path;
               current_dir = abspath e w curdir
           in then_prog (chdir_and_log path')
                (try_finally body (chdir_and_log current_dir)) w)"

subsection \<open>The configuration parser\<close>

text \<open>
  \<open>ConfigParser\<close>'s \<open>sections()\<close>, \<open>has_option\<close>, \<open>get\<close> and \<open>set\<close>. Reading a section
  or option that is not there raises, as does setting an option in a section that is not
  there. Value interpolation is not modelled.
\<close>

definition config_sections :: "config \<Rightarrow> string list" where
  "config_sections parser = map fst parser"

definition config_has_option :: "config \<Rightarrow> string \<Rightarrow> string \<Rightarrow> bool" where
  "config_has_option parser section_name option_name =
     (case map_of parser section_name of
        None \<Rightarrow> False
      | Some options \<Rightarrow> option_name \<in> set (map fst options))"

definition config_get :: "config \<Rightarrow> string \<Rightarrow> string \<Rightarrow> error + pyvalue" where
  "config_get parser section_name option_name =
     (case map_of parser section_name of
        None \<Rightarrow> Inl NoSectionError
      | Some options \<Rightarrow>
          (case map_of options option_name of
             None \<Rightarrow> Inl NoOptionError
           | Some v \<Rightarrow> Inr v))"

definition config_set :: "config \<Rightarrow> string \<Rightarrow> string \<Rightarrow> pyvalue \<Rightarrow> error + config" where
  "config_set parser section_name option_name v =
     (if section_name \<notin> set (map fst parser) then Inl NoSectionError
      else Inr (map (\<lambda>(name, options).
                  if name = section_name then (name, AList.update option_name v options)
                  else (name, options)) parser))"

text \<open>\<open>parser.read(filepath)\<close> takes every value as text; \<open>parser.write(fd)\<close> writes \<open>str(value)\<close>.\<close>

definition config_of_document :: "ini_document \<Rightarrow> config" where
  "config_of_document document =
     map (\<lambda>(name, options). (name, map (\<lambda>(k, v). (k, PyStr v)) options)) document"

definition document_of_config :: "config \<Rightarrow> ini_document" where
  "document_of_config parser =
     map (\<lambda>(name, options). (name, map (\<lambda>(k, v). (k, py_str v)) options)) parser"

text \<open>A file that is not there is skipped by \<open>read\<close>; one that is no ini document raises.\<close>

definition config_read :: "env \<Rightarrow> world \<Rightarrow> string \<Rightarrow> error + config" where
  "config_read e w filepath =
     (case files (fs w) (abspath e w filepath) of
        None \<Rightarrow> Inr []
      | Some (Ini document) \<Rightarrow> Inr (config_of_document document)
      | Some (Text _) \<Rightarrow> Inl ParsingError)"

text \<open>
  The body of a \<open>with open_buildout_configfile(...) as buildout\<close> statement works on the
  parser object and on the world: it returns its outcome, the parser as it leaves it, and
  the world.
\<close>

type_synonym 'a editor = "config \<Rightarrow> world \<Rightarrow> (error + 'a) \<times> config \<times> world"

definition editor_get :: "string \<Rightarrow> string \<Rightarrow> pyvalue editor" where
  "editor_get section_name option_name =
     (\<lambda>parser w. (config_get parser section_name option_name, parser, w))"

definition editor_set :: "string \<Rightarrow> string \<Rightarrow> pyvalue \<Rightarrow> unit editor" where
  "editor_set section_name option_name v =
     (\<lambda>parser w. case config_set parser section_name option_name v of
        Inl err \<Rightarrow> (Inl err, parser, w)
      | Inr parser' \<Rightarrow> (Inr (), parser', w))"

definition editor_raise :: "error \<Rightarrow> 'a editor" where
  "editor_raise err = (\<lambda>parser w. (Inl err, parser, w))"

fun editor_block :: "unit editor list \<Rightarrow> unit editor" where
  "editor_block [] = (\<lambda>parser w. (Inr (), parser, w))"
| "editor_block (m # ms) =
     (\<lambda>parser w. case m parser w of
        (Inl err, parser', w') \<Rightarrow> (Inl err, parser', w')
      | (Inr _, parser', w') \<Rightarrow> editor_block ms parser' w')"

text \<open>
  \<^verbatim>\<open>
  @contextmanager
  def open_buildout_configfile(filepath="buildout.cfg"):
      parser = ConfigParser()
      parser.read(filepath)
      try:
          yield parser
      finally:
          with open(filepath, 'w') as fd:
              parser.write(fd)
  \<close>
  The function declares one parameter, \<open>filepath\<close>. A call is given by its keyword
  arguments; Python raises \<open>TypeError\<close> at the call for a keyword the function does not
  declare, before any of the function's body runs.
\<close>

definition open_buildout_configfile_filepath :: "(string \<times> pyvalue) list \<Rightarrow> error + string" where
  "open_buildout_configfile_filepath keywords =
     (if \<exists>k \<in> set (map fst keywords). k \<noteq> ''filepath'' then Inl TypeError
      else case map_of keywords ''filepath'' of
             None \<Rightarrow> Inr ''buildout.cfg''
           | Some (PyStr path) \<Rightarrow> Inr path
           | Some _ \<Rightarrow> Inl TypeError)"

definition open_buildout_configfile ::
  "env \<Rightarrow> (string \<times> pyvalue) list \<Rightarrow> 'a editor \<Rightarrow> 'a prog" where
  "open_buildout_configfile e keywords body =
     (\<lambda>w. case open_buildout_configfile_filepath keywords of
        Inl err \<Rightarrow> (Inl err, w)
      | Inr filepath \<Rightarrow>
          (case config_read e w filepath of
             Inl err \<Rightarrow> (Inl err, w)
           | Inr parser \<Rightarrow>
               (case body parser w of (outcome, parser', w') \<Rightarrow>
                  try_finally (\<lambda>w. (outcome, w))
                    (write_file e filepath (Ini (document_of_config parser'))) w')))"

subsection \<open>Running external programs\<close>

text \<open>
  \<^verbatim>\<open>
  def parse_args(commandline_or_args):
      return commandline_or_args if isinstance(commandline_or_args, list) else commandline_or_args.split()
  \<close>
\<close>

datatype commandline = Line string | Args "string list"

fun parse_args :: "commandline \<Rightarrow> string list" where
  "parse_args (Args args) = args"
| "parse_args (Line text) = split_whitespace text"

definition execute_assert_success :: "env \<Rightarrow> string list \<Rightarrow> unit prog" where
  "execute_assert_success e args = call_external e ExecutionError (Execute args)"

text \<open>
  \<^verbatim>\<open>
  def execute_with_python(commandline_or_args):
      args = parse_args(commandline_or_args)
      executable = [sys.executable if not is_windows() else _get_executable_from_shebang_line()]
      if not is_running_inside_virtualenv():
          executable.append('-S')
      execute_assert_success(executable + args)
  \<close>
\<close>

definition is_running_inside_virtualenv :: "env \<Rightarrow> bool" where
  "is_running_inside_virtualenv e = sys_real_prefix e"

definition execute_with_python :: "env \<Rightarrow> commandline \<Rightarrow> unit prog" where
  "execute_with_python e commandline_or_args =
     (let args = parse_args commandline_or_args;
          executable = [if \<not> is_windows e then sys_executable e
                        else executable_from_shebang_line e];
          executable = (if \<not> is_running_inside_virtualenv e then executable @ [''-S'']
                        else executable)
      in execute_assert_success e (executable @ args))"

text \<open>
  \<^verbatim>\<open>
  def execute_with_buildout(commandline_or_args):
      args = parse_args(commandline_or_args)
      execute_assert_success([path.join('bin', 'buildout{}'.format('.exe' if name == 'nt' else ''))] + \
                              BUILDOUT_PARAMETERS + args)
  \<close>
\<close>

definition execute_with_buildout :: "env \<Rightarrow> commandline \<Rightarrow> unit prog" where
  "execute_with_buildout e commandline_or_args =
     (\<lambda>w. let args = parse_args commandline_or_args
           in execute_assert_success e
                ([path_join e ''bin'' (''buildout'' @ (if os_name e = ''nt'' then ''.exe'' else []))]
                 @ BUILDOUT_PARAMETERS w @ args) w)"

subsection \<open>The parameter list of the build tool\<close>

text \<open>
  \<^verbatim>\<open>
  BUILDOUT_PARAMETERS = ['-s']

  @contextmanager
  def buildout_parameters_context(parameters):
      try:
          [BUILDOUT_PARAMETERS.append(param) for param in parameters if param not in BUILDOUT_PARAMETERS]
          yield
      finally:
          [BUILDOUT_PARAMETERS.remove(param) for param in parameters if param in BUILDOUT_PARAMETERS]
  \<close>
  Each comprehension tests its condition against the list as the earlier iterations left
  it; \<open>list.remove\<close> deletes the first occurrence.
\<close>

definition BUILDOUT_PARAMETERS_at_import :: "string list" where
  "BUILDOUT_PARAMETERS_at_import = [''-s'']"

fun append_parameters :: "string list \<Rightarrow> string list \<Rightarrow> string list" where
  "append_parameters [] stack = stack"
| "append_parameters (param # parameters) stack =
     append_parameters parameters (if param \<notin> set stack then stack @ [param] else stack)"

fun remove_parameters :: "string list \<Rightarrow> string list \<Rightarrow> string list" where
  "remove_parameters [] stack = stack"
| "remove_parameters (param # parameters) stack =
     remove_parameters parameters (if param \<in> set stack then remove1 param stack else stack)"

definition buildout_parameters_context :: "string list \<Rightarrow> 'a prog \<Rightarrow> 'a prog" where
  "buildout_parameters_context parameters body =
     try_finally
       (then_prog
          (modify (\<lambda>w. w\<lparr>BUILDOUT_PARAMETERS := append_parameters parameters (BUILDOUT_PARAMETERS w)\<rparr>))
          body)
       (modify (\<lambda>w. w\<lparr>BUILDOUT_PARAMETERS := remove_parameters parameters (BUILDOUT_PARAMETERS w)\<rparr>))"

text \<open>
  The state in which the process starts in the given directory and file system: the
  module has been imported and nothing has been asked of the outside yet.
\<close>

definition process_start :: "string \<Rightarrow> filesystem \<Rightarrow> world" where
  "process_start directory file_system =
     \<lparr>cwd = directory, fs = file_system,
      BUILDOUT_PARAMETERS = BUILDOUT_PARAMETERS_at_import, events = []\<rparr>"

section \<open>Namespace derivation (repository plugin)\<close>

text \<open>
  \<^verbatim>\<open>
  def get_package_namespace(name):
      namespaces = []
      for item in name.split('.')[:-1]:
          namespaces.append('.'.join([namespaces[-1], item]) if namespaces else item)
      return namespaces
  \<close>
  The loop is \<open>namespace_loop\<close>, with the list built so far as its first argument.
\<close>

fun namespace_loop :: "string list \<Rightarrow> string list \<Rightarrow> string list" where
  "namespace_loop namespaces [] = namespaces"
| "namespace_loop namespaces (item # items) =
     namespace_loop
       (namespaces @ [if namespaces \<noteq> [] then join ''.'' [last namespaces, item] else item])
       items"

definition get_package_namespace :: "string \<Rightarrow> string list" where
  "get_package_namespace name = namespace_loop [] (butlast (split CHR ''.'' name))"

section \<open>The build plugin\<close>

text \<open>
  \<^verbatim>\<open>
  def create_cache_directories(self):
      with open_buildout_configfile() as buildout:
          cachedir = buildout.get("buildout", "download-cache")
      cache_dist = join(cachedir, "dist")
      if not exists(cache_dist):
          makedirs(cache_dist)
  \<close>
\<close>

definition create_cache_directories :: "env \<Rightarrow> unit prog" where
  "create_cache_directories e =
     bind_prog (open_buildout_configfile e [] (editor_get ''buildout'' ''download-cache''))
       (\<lambda>cachedir. case cachedir of
          PyStr directory \<Rightarrow>
            (\<lambda>w. let cache_dist = path_join e directory ''dist''
                  in when_prog (\<not> exists e w cache_dist) (makedirs e cache_dist) w)
        | _ \<Rightarrow> raise AttributeError)"

text \<open>
  \<^verbatim>\<open>
  def bootstrap_if_necessary(self):
      if not exists("bootstrap.py"):
          logger.error("bootsrap.py does not exist")
          raise SystemExit(1)
      if not is_executable_exists(join("bin", "buildout")) or self.arguments.get("--force-bootstrap", False):
          execute_with_python("bootstrap.py -d -t")
  \<close>
\<close>

definition bootstrap_if_necessary :: "env \<Rightarrow> arguments \<Rightarrow> unit prog" where
  "bootstrap_if_necessary e arguments =
     (\<lambda>w. if \<not> exists e w ''bootstrap.py'' then raise (SystemExit 1) w
           else if \<not> is_executable_exists e w (path_join e ''bin'' ''buildout'')
                   \<or> truthy (get_arg_default arguments ''--force-bootstrap'' (PyBool False))
           then execute_with_python e (Line ''bootstrap.py -d -t'') w
           else succeed () w)"

text \<open>
  \<^verbatim>\<open>
  def install_sections_by_recipe(self, recipe):
      with open_buildout_configfile() as buildout:
          sections_to_install = [section for section in buildout.sections()
                                 if buildout.has_option(section, "recipe") and \
                                    buildout.get(section, "recipe") == recipe]
      if sections_to_install:
          execute_with_buildout("install {}".format(' '.join(sections_to_install)))
  \<close>
\<close>

definition sections_with_recipe :: "string \<Rightarrow> config \<Rightarrow> string list" where
  "sections_with_recipe recipe buildout =
     filter (\<lambda>section_name.
               config_has_option buildout section_name ''recipe''
               \<and> config_get buildout section_name ''recipe'' = Inr (PyStr recipe))
       (config_sections buildout)"

definition install_sections_by_recipe :: "env \<Rightarrow> string \<Rightarrow> unit prog" where
  "install_sections_by_recipe e recipe =
     bind_prog
       (open_buildout_configfile e []
          (\<lambda>buildout w. (Inr (sections_with_recipe recipe buildout), buildout, w)))
       (\<lambda>sections_to_install.
          when_prog (sections_to_install \<noteq> [])
            (execute_with_buildout e (Line (''install '' @ join '' '' sections_to_install))))"

text \<open>
  \<^verbatim>\<open>
  def submodule_update(self):
      with buildout_parameters_context(['buildout:develop=']):
          self.install_sections_by_recipe("zerokspot.recipe.git")

  def create_setup_py(self):
      with buildout_parameters_context(['buildout:develop=']):
          self.install_sections_by_recipe("infi.recipe.template.version")
  \<close>
\<close>

definition submodule_update :: "env \<Rightarrow> unit prog" where
  "submodule_update e =
     buildout_parameters_context [''buildout:develop='']
       (install_sections_by_recipe e ''zerokspot.recipe.git'')"

definition create_setup_py :: "env \<Rightarrow> unit prog" where
  "create_setup_py e =
     buildout_parameters_context [''buildout:develop='']
       (install_sections_by_recipe e ''infi.recipe.template.version'')"

text \<open>
  Modelled from the spec: \<open>assert_buildout_executable_exists\<close>, of the module
  \<open>infi.projector.helper.assertions\<close>, "fails fatally if the build-tool executable still
  doesn't exist", and a fatal precondition failure exits with status 1.
\<close>

definition assert_buildout_executable_exists :: "env \<Rightarrow> unit prog" where
  "assert_buildout_executable_exists e =
     (\<lambda>w. if \<not> is_executable_exists e w (path_join e ''bin'' ''buildout'')
           then raise (SystemExit 1) w else succeed () w)"

text \<open>
  \<^verbatim>\<open>
  @contextmanager
  def buildout_use_custom_python(self):
      if self.arguments.get("--use-isolated-python", False):
          yield
          assert_buildout_executable_exists()
          if is_buildout_executable_using_isolated_python():
              with buildout_parameters_context(["buildout:python=buildout"]):
                  execute_with_python("bootstrap.py -d -t")
      else:
          with buildout_parameters_context(["buildout:python=buildout"]):
              yield
  \<close>
  In the first branch the \<open>yield\<close> is not inside a \<open>try\<close>: when the body raises, the
  statements after it do not run.
\<close>

definition buildout_use_custom_python :: "env \<Rightarrow> arguments \<Rightarrow> unit prog \<Rightarrow> unit prog" where
  "buildout_use_custom_python e arguments body =
     (if truthy (get_arg_default arguments ''--use-isolated-python'' (PyBool False))
      then block
             [body,
              assert_buildout_executable_exists e,
              (\<lambda>w. when_prog (is_buildout_executable_using_isolated_python e w)
                      (buildout_parameters_context [''buildout:python=buildout'']
                         (execute_with_python e (Line ''bootstrap.py -d -t''))) w)]
      else buildout_parameters_context [''buildout:python=buildout''] body)"

text \<open>
  \<^verbatim>\<open>
  def create_scripts(self):
      python = path.join('parts', 'python', 'bin', 'python')
      if self.arguments.get("--use-isolated-python", False):
          if self.arguments.get("--newest", False) or not is_executable_exists(python):
              execute_with_buildout("install python-distribution")
      with self.buildout_use_custom_python():
          self.install_sections_by_recipe("infi.vendata.console_scripts")
  \<close>
\<close>

definition create_scripts :: "env \<Rightarrow> arguments \<Rightarrow> unit prog" where
  "create_scripts e arguments =
     (let python = path_join e (path_join e (path_join e ''parts'' ''python'') ''bin'') ''python''
      in block
           [(\<lambda>w. when_prog
                    (truthy (get_arg_default arguments ''--use-isolated-python'' (PyBool False))
                     \<and> (truthy (get_arg_default arguments ''--newest'' (PyBool False))
                        \<or> \<not> is_executable_exists e w python))
                    (execute_with_buildout e (Line ''install python-distribution'')) w),
            buildout_use_custom_python e arguments
              (install_sections_by_recipe e ''infi.vendata.console_scripts'')])"

text \<open>
  \<^verbatim>\<open>
  def clean_build(self):
      directories_to_clean = ['bin', 'eggs', 'develop-eggs']
      files_to_clean = ['setup.py']
      [remove(filename) for filename in files_to_clean if exists(filename)]
      [rmtree(dirname)  for dirname in directories_to_clean if exists(dirname)]
  \<close>
\<close>

definition clean_build :: "env \<Rightarrow> unit prog" where
  "clean_build e =
     (let directories_to_clean = [''bin'', ''eggs'', ''develop-eggs''];
          files_to_clean = [''setup.py'']
      in block
           (map (\<lambda>filename w. when_prog (exists e w filename) (remove e filename) w) files_to_clean
            @ map (\<lambda>dirname w. when_prog (exists e w dirname) (rmtree e dirname) w)
                directories_to_clean))"

text \<open>
  \<^verbatim>\<open>
  @contextmanager
  def buildout_newest_or_offline_context(self):
      parameters = []
      if self.arguments.get('--newest'):
          parameters.append('-n')
      if self.arguments.get('--offline'):
          parameters.append('-o')
      with buildout_parameters_context(parameters):
          yield
  \<close>
\<close>

definition buildout_newest_or_offline_context :: "arguments \<Rightarrow> 'a prog \<Rightarrow> 'a prog" where
  "buildout_newest_or_offline_context arguments body =
     (let parameters = [];
          parameters = (if truthy (get_arg arguments ''--newest'') then parameters @ [''-n'']
                        else parameters);
          parameters = (if truthy (get_arg arguments ''--offline'') then parameters @ [''-o'']
                        else parameters)
      in buildout_parameters_context parameters body)"

text \<open>
  \<^verbatim>\<open>
  def get_readline_module(self):
      modules = {"Darwin": 'readline',
                 "Windows": 'pyreadline'}
      return modules.get(system())

  def is_module_installed(self, module):
      try:
          execute_assert_success("bin/python -c import {}".format(module).split())
      except ExecutionError:
          return False
      return True

  def install_readline(self):
      module = self.get_readline_module()
      if not module or self.is_module_installed(module):
          return
      execute_assert_success("bin/easy_install {}".format(module).split())
  \<close>
\<close>

definition get_readline_module :: "env \<Rightarrow> pyvalue" where
  "get_readline_module e =
     (case map_of [(''Darwin'', ''readline''), (''Windows'', ''pyreadline'')] (platform_system e) of
        None \<Rightarrow> PyNone
      | Some module_name \<Rightarrow> PyStr module_name)"

definition is_module_installed :: "env \<Rightarrow> string \<Rightarrow> bool prog" where
  "is_module_installed e module_name =
     (\<lambda>w. case execute_assert_success e
                  (split_whitespace (''bin/python -c import '' @ module_name)) w of
        (Inl ExecutionError, w') \<Rightarrow> (Inr False, w')
      | (Inl err, w') \<Rightarrow> (Inl err, w')
      | (Inr _, w') \<Rightarrow> (Inr True, w'))"

definition install_readline :: "env \<Rightarrow> unit prog" where
  "install_readline e =
     (let module_value = get_readline_module e
      in if \<not> truthy module_value then succeed ()
         else bind_prog (is_module_installed e (py_str module_value))
                (\<lambda>installed.
                   if installed then succeed ()
                   else execute_assert_success e
                          (split_whitespace (''bin/easy_install '' @ py_str module_value))))"

text \<open>
  \<^verbatim>\<open>
  def scripts(self):
      if self.arguments.get("--clean", False):
          self.clean_build()
      self.create_cache_directories()
      self.bootstrap_if_necessary()
      with self.buildout_newest_or_offline_context():
          if not self.arguments.get("--no-submodules", False):
              self.submodule_update()
          if not self.arguments.get("--no-setup-py", False):
              self.create_setup_py()
          if not self.arguments.get("--no-scripts", False):
              self.create_scripts()
          if not self.arguments.get("--no-readline", False):
              self.install_readline()
  \<close>
\<close>

definition scripts :: "env \<Rightarrow> arguments \<Rightarrow> unit prog" where
  "scripts e arguments =
     block
       [when_prog (truthy (get_arg_default arguments ''--clean'' (PyBool False))) (clean_build e),
        create_cache_directories e,
        bootstrap_if_necessary e arguments,
        buildout_newest_or_offline_context arguments
          (block
             [when_prog (\<not> truthy (get_arg_default arguments ''--no-submodules'' (PyBool False)))
                (submodule_update e),
              when_prog (\<not> truthy (get_arg_default arguments ''--no-setup-py'' (PyBool False)))
                (create_setup_py e),
              when_prog (\<not> truthy (get_arg_default arguments ''--no-scripts'' (PyBool False)))
                (create_scripts e arguments),
              when_prog (\<not> truthy (get_arg_default arguments ''--no-readline'' (PyBool False)))
                (install_readline e)])]"

section \<open>The repository plugin\<close>

text \<open>
  \<^verbatim>\<open>
  def generate_package_code():
      return '{' + str(uuid1()) + '}'

  def indent(text):
      return '\n'.join(['\t{}'.format(line) for line in text.splitlines()]).strip()
  \<close>
\<close>

definition generate_package_code :: "env \<Rightarrow> string" where
  "generate_package_code e = ''{'' @ uuid1 e @ ''}''"

definition indent :: "string \<Rightarrow> string" where
  "indent text_value = strip (join [CHR 0x0A] (map (\<lambda>line. CHR 0x09 # line) (splitlines text_value)))"

text \<open>
  The calls into gitpy and gitflow are events for \<open>external\<close>, named by the method and
  given the arguments that matter.
\<close>

definition library_call :: "env \<Rightarrow> string \<Rightarrow> string list \<Rightarrow> unit prog" where
  "library_call e method args = call_external e LibraryError (Library method args)"

text \<open>
  \<^verbatim>\<open>
  @contextmanager
  def _create_subdir_if_necessary(self):
      if not self.arguments.get('--mkdir'):
          yield
          return
      dirname = self.arguments.get('<project_name>') or self.arguments.get('<origin>')
      dirname = (dirname if not dirname.endswith('.git') else dirname[0:-4]).split(sep)[-1]
      if exists(dirname) and isdir(dirname):
          logger.debug("{} already exists".format(dirname))
          raise SystemExit(1)
      makedirs(dirname)
      with chdir(dirname):
          yield
  \<close>
\<close>

definition create_subdir_if_necessary :: "env \<Rightarrow> arguments \<Rightarrow> unit prog \<Rightarrow> unit prog" where
  "create_subdir_if_necessary e arguments body =
     (if \<not> truthy (get_arg arguments ''--mkdir'') then body
      else case py_or (get_arg arguments ''<project_name>'') (get_arg arguments ''<origin>'') of
             PyStr dirname \<Rightarrow>
               (let dirname = last (split (path_sep e)
                                (if \<not> endswith dirname ''.git'' then dirname
                                 else take (length dirname - 4) dirname))
                in (\<lambda>w. if exists e w dirname \<and> isdir e w dirname then raise (SystemExit 1) w
                         else then_prog (makedirs e dirname) (chdir e dirname body) w))
           | _ \<Rightarrow> raise AttributeError)"

text \<open>
  \<^verbatim>\<open>
  def _exit_if_dotgit_exists(self):
      if exists('.git'):
          logger.error("This directory is already a git repository")
          raise SystemExit(1)
  \<close>
\<close>

definition exit_if_dotgit_exists :: "env \<Rightarrow> unit prog" where
  "exit_if_dotgit_exists e =
     (\<lambda>w. if exists e w ''.git'' then raise (SystemExit 1) w else succeed () w)"

text \<open>
  \<^verbatim>\<open>
  def git_init(self):
      repository = LocalRepository(curdir)
      repository.init()
      repository.addRemote("origin", self.arguments.get('<origin>'))

  def gitflow_init(self):
      gitflow = GitFlow()
      gitflow.init(force_defaults=True)

  def release_initial_version(self):
      release_version_with_git_flow("v0")

  def git_checkout_develop(self):
      repository = LocalRepository(curdir)
      repository.checkout("develop")
  \<close>
  and, in the helper module,
  \<^verbatim>\<open>
  def release_version_with_git_flow(version_tag):
      gitflow = GitFlow()
      gitflow.create("release", version_tag, base=None, fetch=False)
      gitflow.finish("release", version_tag, fetch=False, rebase=False, keep=False, force_delete=True,
                     tagging_info=dict(sign=False, message=version_tag))
      repository = LocalRepository(curdir)
      repository.checkout("develop")
      repository.commit("empty commit after version {}".format(version_tag), allowEmpty=True)
      repository.createTag("{}-develop".format(version_tag))
  \<close>
\<close>

definition git_init :: "env \<Rightarrow> arguments \<Rightarrow> unit prog" where
  "git_init e arguments =
     block
       [library_call e ''LocalRepository.init'' [],
        library_call e ''LocalRepository.addRemote''
          [''origin'', py_str (get_arg arguments ''<origin>'')]]"

definition gitflow_init :: "env \<Rightarrow> unit prog" where
  "gitflow_init e = library_call e ''GitFlow.init'' []"

definition release_version_with_git_flow :: "env \<Rightarrow> string \<Rightarrow> unit prog" where
  "release_version_with_git_flow e version_tag =
     block
       [library_call e ''GitFlow.create'' [''release'', version_tag],
        library_call e ''GitFlow.finish'' [''release'', version_tag],
        library_call e ''LocalRepository.checkout'' [''develop''],
        library_call e ''LocalRepository.commit'' [''empty commit after version '' @ version_tag],
        library_call e ''LocalRepository.createTag'' [version_tag @ ''-develop'']]"

definition release_initial_version :: "env \<Rightarrow> unit prog" where
  "release_initial_version e = release_version_with_git_flow e ''v0''"

definition git_checkout_develop :: "env \<Rightarrow> unit prog" where
  "git_checkout_develop e = library_call e ''LocalRepository.checkout'' [''develop'']"

text \<open>
  \<^verbatim>\<open>
  def add_initial_files(self):
      for src, dst in [(filepath, basename(filepath)) for filepath in get_files()]:
          copy(src, dst)
  \<close>
\<close>

definition add_initial_files :: "env \<Rightarrow> unit prog" where
  "add_initial_files e =
     block (map (\<lambda>(src, dst). copy e src dst)
              (map (\<lambda>filepath. (filepath, basename e filepath)) (get_files e)))"

text \<open>
  \<^verbatim>\<open>
  def set_buildout_config(self):
      project_name = self.get_project_name()
      with open_buildout_configfile(write_on_exit=True) as buildout:
          buildout.set('project', 'name', project_name)
          buildout.set('project', 'namespace_packages', get_package_namespace(project_name))
          buildout.set('project', 'version_file',
                           '/'.join(['src'] + project_name.split('.') + ['__version__.py']))
          buildout.set('project', 'description', self.arguments.get("<short_description>"))
          buildout.set('project', 'long_description', indent(self.arguments.get("<long_description>")))
          buildout.set('project', 'upgrade_code', generate_package_code())
          buildout.set('project', 'product_name', project_name)
  \<close>
  A string method called on a value that is no string raises \<open>AttributeError\<close>.
\<close>

definition get_project_name :: "arguments \<Rightarrow> pyvalue" where
  "get_project_name arguments = get_arg arguments ''<project_name>''"

definition on_string :: "pyvalue \<Rightarrow> (string \<Rightarrow> 'a editor) \<Rightarrow> 'a editor" where
  "on_string v f = (case v of PyStr s \<Rightarrow> f s | _ \<Rightarrow> editor_raise AttributeError)"

definition set_buildout_config :: "env \<Rightarrow> arguments \<Rightarrow> unit prog" where
  "set_buildout_config e arguments =
     (let project_name = get_project_name arguments
      in open_buildout_configfile e [(''write_on_exit'', PyBool True)]
           (editor_block
              [editor_set ''project'' ''name'' project_name,
               on_string project_name (\<lambda>name.
                 editor_set ''project'' ''namespace_packages''
                   (PyList (get_package_namespace name))),
               on_string project_name (\<lambda>name.
                 editor_set ''project'' ''version_file''
                   (PyStr (join ''/'' ([''src''] @ split CHR ''.'' name @ [''__version__.py''])))),
               editor_set ''project'' ''description'' (get_arg arguments ''<short_description>''),
               on_string (get_arg arguments ''<long_description>'') (\<lambda>long_description.
                 editor_set ''project'' ''long_description'' (PyStr (indent long_description))),
               editor_set ''project'' ''upgrade_code'' (PyStr (generate_package_code e)),
               editor_set ''project'' ''product_name'' project_name]))"

text \<open>
  \<^verbatim>\<open>
  def get_package_directories(self):
      name = self.get_project_name()
      return [item.replace('.', sep) for item in get_package_namespace(name)] + [name.replace('.', sep)]

  def generate_src(self):
      file_content = """__import__("pkg_resources").declare_namespace(__name__)\n"""
      mkdir('src')
      for dirname in self.get_package_directories():
          mkdir(join('src', dirname))
          with open(join('src', dirname, '__init__.py'), 'w') as file:
              file.write(file_content)

  def append_to_gitignore(self):
      project_name = self.get_project_name()
      with open('.gitignore', 'a') as fd:
          fd.write('\n' + '/'.join(['src'] + project_name.split('.') + ['__version__.py']) + '\n')

  def commit_all(self):
      repository = LocalRepository(curdir)
      repository.addAll()
      repository.commit("added all project files")
  \<close>
\<close>

definition get_package_directories :: "env \<Rightarrow> string \<Rightarrow> string list" where
  "get_package_directories e name =
     map (replace_char CHR ''.'' (path_sep e)) (get_package_namespace name)
     @ [replace_char CHR ''.'' (path_sep e) name]"

definition generate_src :: "env \<Rightarrow> arguments \<Rightarrow> unit prog" where
  "generate_src e arguments =
     (let file_content =
            ''__import__('' @ [CHR 0x22] @ ''pkg_resources'' @ [CHR 0x22]
            @ '').declare_namespace(__name__)'' @ [CHR 0x0A]
      in then_prog (mkdir e ''src'')
           (case get_project_name arguments of
              PyStr name \<Rightarrow>
                block (map (\<lambda>dirname.
                              then_prog (mkdir e (path_join e ''src'' dirname))
                                (write_file e
                                   (path_join e (path_join e ''src'' dirname) ''__init__.py'')
                                   (Text file_content)))
                         (get_package_directories e name))
            | _ \<Rightarrow> raise AttributeError))"

definition append_to_gitignore :: "env \<Rightarrow> arguments \<Rightarrow> unit prog" where
  "append_to_gitignore e arguments =
     (case get_project_name arguments of
        PyStr project_name \<Rightarrow>
          append_file e ''.gitignore''
            ([CHR 0x0A] @ join ''/'' ([''src''] @ split CHR ''.'' project_name @ [''__version__.py''])
             @ [CHR 0x0A])
      | _ \<Rightarrow> raise AttributeError)"

definition commit_all :: "env \<Rightarrow> unit prog" where
  "commit_all e =
     block
       [library_call e ''LocalRepository.addAll'' [],
        library_call e ''LocalRepository.commit'' [''added all project files'']]"

text \<open>
  \<^verbatim>\<open>
  def init(self):
      with self._create_subdir_if_necessary():
          self._exit_if_dotgit_exists()
          self.git_init()
          self.gitflow_init()
          self.release_initial_version()
          self.git_checkout_develop()
          self.add_initial_files()
          self.set_buildout_config()
          self.generate_src()
          self.append_to_gitignore()
          self.commit_all()

  def git_clone(self):
      repository = LocalRepository(curdir)
      repository.clone(self.arguments.get("<origin>"))

  def clone(self):
      self.arguments['--mkdir'] = True
      with self._create_subdir_if_necessary():
          self.git_clone()
          self.git_checkout_develop()
          self.gitflow_init()
  \<close>
\<close>

definition init_steps :: "env \<Rightarrow> arguments \<Rightarrow> unit prog list" where
  "init_steps e arguments =
     [exit_if_dotgit_exists e,
      git_init e arguments,
      gitflow_init e,
      release_initial_version e,
      git_checkout_develop e,
      add_initial_files e,
      set_buildout_config e arguments,
      generate_src e arguments,
      append_to_gitignore e arguments,
      commit_all e]"

definition init :: "env \<Rightarrow> arguments \<Rightarrow> unit prog" where
  "init e arguments = create_subdir_if_necessary e arguments (block (init_steps e arguments))"

definition git_clone :: "env \<Rightarrow> arguments \<Rightarrow> unit prog" where
  "git_clone e arguments =
     library_call e ''LocalRepository.clone'' [py_str (get_arg arguments ''<origin>'')]"

definition clone :: "env \<Rightarrow> arguments \<Rightarrow> unit prog" where
  "clone e arguments =
     (let arguments = arguments(''--mkdir'' \<mapsto> PyBool True)
      in create_subdir_if_necessary e arguments
           (block [git_clone e arguments, git_checkout_develop e, gitflow_init e]))"

section \<open>What the properties below speak about\<close>

text \<open>A piece of program leaves \<open>BUILDOUT_PARAMETERS\<close> as it finds it, whatever the world.\<close>

definition keeps_parameters :: "'a prog \<Rightarrow> bool" where
  "keeps_parameters m = (\<forall>w. BUILDOUT_PARAMETERS (snd (m w)) = BUILDOUT_PARAMETERS w)"

definition editor_keeps_parameters :: "'a editor \<Rightarrow> bool" where
  "editor_keeps_parameters m =
     (\<forall>parser w. BUILDOUT_PARAMETERS (snd (snd (m parser w))) = BUILDOUT_PARAMETERS w)"



text \<open>
  A platform for the examples: POSIX paths, an interpreter outside a virtualenv, external
  processes and library calls that all succeed and leave the file system as they find
  it, and an executable that exists when a file of its name does.
\<close>

definition example_env :: env where
  "example_env =
     \<lparr>external = (\<lambda>ev file_system. (True, file_system)),
      path_sep = CHR ''/'',
      os_name = ''posix'',
      sys_executable = ''/usr/bin/python'',
      sys_real_prefix = False,
      platform_system = ''Linux'',
      is_windows = False,
      executable_from_shebang_line = [],
      is_executable_exists = (\<lambda>w path. files (fs w) (cwd w @ ''/'' @ path) \<noteq> None),
      is_buildout_executable_using_isolated_python = (\<lambda>w. False),
      get_files = [],
      uuid1 = ''6fa459ea-ee8a-11e0-9c18-0123456789ab''\<rparr>"

text \<open>
  A project directory for the examples: a configuration with a download cache and one
  section for each of the two recipes, the bootstrap script, the build tool, and the
  cache directories.
\<close>

definition example_buildout_cfg :: ini_document where
  "example_buildout_cfg =
     [(''buildout'', [(''download-cache'', ''/cache'')]),
      (''setup.py'', [(''recipe'', ''infi.recipe.template.version'')]),
      (''scripts'', [(''recipe'', ''infi.vendata.console_scripts'')])]"

definition example_project :: filesystem where
  "example_project =
     \<lparr>dirs = {''/project'', ''/project/bin'', ''/cache'', ''/cache/dist''},
      files = [''/project/buildout.cfg'' \<mapsto> Ini example_buildout_cfg,
               ''/project/bootstrap.py'' \<mapsto> Text [],
               ''/project/bin/buildout'' \<mapsto> Text []]\<rparr>"

text \<open>
  The same project without its bootstrap script, as a git repository, and with a regular
  file where its cache directory should be.
\<close>

definition example_project_without_bootstrap :: filesystem where
  "example_project_without_bootstrap =
     example_project\<lparr>files := (files example_project)(''/project/bootstrap.py'' := None)\<rparr>"

definition example_repository :: filesystem where
  "example_repository = example_project\<lparr>dirs := insert ''/project/.git'' (dirs example_project)\<rparr>"

definition example_project_with_cache_file :: filesystem where
  "example_project_with_cache_file =
     \<lparr>dirs = {''/project'', ''/project/bin''},
      files = (files example_project)(''/cache'' \<mapsto> Text [])\<rparr>"

text \<open>
  The arguments of \<open>projector build scripts --no-submodules --no-readline\<close> and of
  \<open>projector repository init [--mkdir] a.b origin short long\<close>, as docopt gives them.
\<close>

definition example_scripts_arguments :: arguments where
  "example_scripts_arguments =
     [''scripts'' \<mapsto> PyBool True,
      ''--clean'' \<mapsto> PyBool False,
      ''--force-bootstrap'' \<mapsto> PyBool False,
      ''--no-submodules'' \<mapsto> PyBool True,
      ''--no-scripts'' \<mapsto> PyBool False,
      ''--no-readline'' \<mapsto> PyBool True,
      ''--use-isolated-python'' \<mapsto> PyBool False,
      ''--newest'' \<mapsto> PyBool False,
      ''--offline'' \<mapsto> PyBool False]"

definition example_init_arguments :: "bool \<Rightarrow> arguments" where
  "example_init_arguments make_directory =
     [''init'' \<mapsto> PyBool True,
      ''--mkdir'' \<mapsto> PyBool make_directory,
      ''<project_name>'' \<mapsto> PyStr ''a.b'',
      ''<origin>'' \<mapsto> PyStr ''git://host/a.b.git'',
      ''<short_description>'' \<mapsto> PyStr ''short'',
      ''<long_description>'' \<mapsto> PyStr ''long'']"



section \<open>Properties of the string functions\<close>

lemma split_not_Nil: "split c s \<noteq> []"
  by (induction s) (auto split: list.splits)

lemma join_Cons: "ys \<noteq> [] \<Longrightarrow> join sep (x # ys) = x @ sep @ join sep ys"
  by (cases ys) auto

lemma join_append:
  "xs \<noteq> [] \<Longrightarrow> ys \<noteq> [] \<Longrightarrow> join sep (xs @ ys) = join sep xs @ sep @ join sep ys"
proof (induction xs)
  case Nil
  then show ?case by simp
next
  case (Cons x xs)
  show ?case
  proof (cases "xs = []")
    case True
    with Cons.prems show ?thesis by (simp add: join_Cons)
  next
    case False
    with Cons show ?thesis by (simp add: join_Cons)
  qed
qed

lemma join_split: "join [c] (split c s) = s"
proof (induction s)
  case Nil
  show ?case by simp
next
  case (Cons a s)
  obtain w ws where ws: "split c s = w # ws"
    using split_not_Nil [of c s] by (cases "split c s") auto
  show ?case
  proof (cases "a = c")
    case True
    with Cons ws show ?thesis by (simp add: join_Cons)
  next
    case False
    with Cons ws show ?thesis by (cases ws) auto
  qed
qed

lemma split_append_sep: "split c (a @ c # b) = split c a @ split c b"
proof (induction a)
  case Nil
  show ?case by simp
next
  case (Cons x a)
  obtain w ws where ws: "split c a = w # ws"
    using split_not_Nil [of c a] by (cases "split c a") auto
  with Cons show ?case by simp
qed

lemma join_merge_head: "join [c] ((l @ c # i) # q) = l @ c # join [c] (i # q)"
  by (cases q) auto

lemma join_strict_prefix:
  assumes "strict_prefix q q'" "q \<noteq> []" "sep \<noteq> []"
  shows "strict_prefix (join sep q) (join sep q')"
proof -
  from assms obtain r where r: "q' = q @ r" "r \<noteq> []"
    by (auto simp: strict_prefix_def prefix_def)
  then have "join sep q' = join sep q @ sep @ join sep r"
    using assms(2) by (simp add: join_append)
  moreover have "sep @ join sep r \<noteq> []"
    using assms(3) by simp
  ultimately show ?thesis by (auto simp: strict_prefix_def)
qed

lemma prefixes_unfold: "prefixes xs = [] # tl (prefixes xs)"
  by (cases xs) auto

lemma set_tl_prefixes: "set (tl (prefixes xs)) = {q. prefix q xs \<and> q \<noteq> []}"
proof -
  have "distinct (prefixes xs)" by (rule distinct_prefixes)
  then have "[] \<notin> set (tl (prefixes xs))"
    by (subst (asm) prefixes_unfold) simp
  moreover have "set (prefixes xs) = insert [] (set (tl (prefixes xs)))"
    by (subst prefixes_unfold) simp
  ultimately show ?thesis
    using set_prefixes_eq [of xs] by auto
qed

lemma sorted_wrt_prefixes: "sorted_wrt strict_prefix (prefixes xs)"
  by (induction xs) (auto simp: sorted_wrt_map)

lemma sorted_wrt_tl: "sorted_wrt R xs \<Longrightarrow> sorted_wrt R (tl xs)"
  by (cases xs) auto

lemma sorted_wrt_irrefl_distinct:
  "sorted_wrt R xs \<Longrightarrow> (\<And>x. \<not> R x x) \<Longrightarrow> distinct xs"
  by (induction xs) auto
section \<open>Namespace derivation returns the strict dotted prefixes\<close>

lemma namespace_loop_prefixes:
  "acc \<noteq> [] \<Longrightarrow>
   namespace_loop acc items = acc @ map (\<lambda>q. join ''.'' (last acc # q)) (tl (prefixes items))"
proof (induction items arbitrary: acc)
  case Nil
  show ?case by simp
next
  case (Cons i items)
  let ?l = "last acc"
  have "namespace_loop acc (i # items) = namespace_loop (acc @ [?l @ ''.'' @ i]) items"
    using Cons.prems by simp
  also have "\<dots> = (acc @ [?l @ ''.'' @ i])
                 @ map (\<lambda>q. join ''.'' ((?l @ ''.'' @ i) # q)) (tl (prefixes items))"
    using Cons.IH [of "acc @ [?l @ ''.'' @ i]"] by simp
  also have "\<dots> = acc @ map (\<lambda>q. join ''.'' (?l # q)) (map ((#) i) (prefixes items))"
    by (subst (2) prefixes_unfold) (simp add: join_merge_head comp_def)
  finally show ?case by simp
qed

lemma get_package_namespace_prefixes:
  "get_package_namespace name = map (join ''.'') (tl (prefixes (butlast (split CHR ''.'' name))))"
proof (cases "butlast (split CHR ''.'' name)")
  case Nil
  then show ?thesis by (simp add: get_package_namespace_def)
next
  case (Cons i items)
  have "namespace_loop [] (i # items) = namespace_loop [i] items" by simp
  also have "\<dots> = [i] @ map (\<lambda>q. join ''.'' (i # q)) (tl (prefixes items))"
    using namespace_loop_prefixes [of "[i]" items] by simp
  also have "\<dots> = map (join ''.'') (map ((#) i) (prefixes items))"
    by (subst (2) prefixes_unfold) (simp add: comp_def)
  finally show ?thesis using Cons by (simp add: get_package_namespace_def)
qed

lemma namespace_members_sub:
  assumes "p \<in> set (get_package_namespace name)"
  shows "\<exists>rest. name = p @ ''.'' @ rest"
proof -
  from assms obtain q
    where q: "prefix q (butlast (split CHR ''.'' name))" "q \<noteq> []" "p = join ''.'' q"
    by (auto simp: get_package_namespace_prefixes set_tl_prefixes)
  then obtain r where r: "butlast (split CHR ''.'' name) = q @ r" by (auto simp: prefix_def)
  define l where "l = last (split CHR ''.'' name)"
  have "split CHR ''.'' name = butlast (split CHR ''.'' name) @ [l]"
    unfolding l_def using split_not_Nil by simp
  then have parts: "split CHR ''.'' name = q @ (r @ [l])" using r by simp
  have "join ''.'' (q @ (r @ [l])) = join ''.'' q @ ''.'' @ join ''.'' (r @ [l])"
    using q(2) by (intro join_append) simp_all
  then have "name = p @ ''.'' @ join ''.'' (r @ [l])"
    using q(3) parts join_split [of "CHR ''.''" name] by simp
  then show ?thesis by blast
qed

lemma namespace_members_sup:
  assumes "name = p @ ''.'' @ rest"
  shows "p \<in> set (get_package_namespace name)"
proof -
  from assms have sp: "split CHR ''.'' name = split CHR ''.'' p @ split CHR ''.'' rest"
    by (simp add: split_append_sep)
  then have "butlast (split CHR ''.'' name) = split CHR ''.'' p @ butlast (split CHR ''.'' rest)"
    by (simp add: butlast_append split_not_Nil)
  then have "prefix (split CHR ''.'' p) (butlast (split CHR ''.'' name))" by simp
  then have "join ''.'' (split CHR ''.'' p) \<in> set (get_package_namespace name)"
    unfolding get_package_namespace_prefixes set_map set_tl_prefixes
    using split_not_Nil by blast
  then show ?thesis using join_split [of "CHR ''.''" p] by simp
qed

lemma namespace_sorted: "sorted_wrt strict_prefix (get_package_namespace name)"
proof -
  let ?ps = "tl (prefixes (butlast (split CHR ''.'' name)))"
  have "sorted_wrt strict_prefix ?ps"
    by (rule sorted_wrt_tl) (rule sorted_wrt_prefixes)
  moreover have "\<forall>q \<in> set ?ps. q \<noteq> []" by (simp add: set_tl_prefixes)
  ultimately have "sorted_wrt (\<lambda>q q'. strict_prefix (join ''.'' q) (join ''.'' q')) ?ps"
    by (rule_tac sorted_wrt_mono_rel [where P = strict_prefix]) (auto intro: join_strict_prefix)
  then show ?thesis by (simp add: get_package_namespace_prefixes sorted_wrt_map)
qed

text \<open>
  Claim C9. For every project name, \<open>get_package_namespace\<close> returns the dotted
  prefixes of the name other than the name itself, shortest first and without
  duplicates: the non-empty prefixes of the list of components without the last
  component, each joined by dots. A text is in the result exactly when the name is that
  text followed by a dot and a rest; each entry is a strict prefix of every later one.
  For \<open>infi.projector.tool\<close> the result is \<open>infi\<close>, \<open>infi.projector\<close>, and for \<open>a.b.c\<close> it
  is \<open>a\<close>, \<open>a.b\<close>.
\<close>

theorem get_package_namespace_strict_prefixes:
  "get_package_namespace name
     = map (join ''.'') (tl (prefixes (butlast (split CHR ''.'' name))))
   \<and> set (get_package_namespace name) = {p. \<exists>rest. name = p @ ''.'' @ rest}
   \<and> sorted_wrt strict_prefix (get_package_namespace name)
   \<and> distinct (get_package_namespace name)
   \<and> get_package_namespace ''infi.projector.tool'' = [''infi'', ''infi.projector'']
   \<and> get_package_namespace ''a.b.c'' = [''a'', ''a.b'']"
proof -
  have members: "set (get_package_namespace name) = {p. \<exists>rest. name = p @ ''.'' @ rest}"
    using namespace_members_sub namespace_members_sup by blast
  have no_duplicates: "distinct (get_package_namespace name)"
    by (rule sorted_wrt_irrefl_distinct [OF namespace_sorted]) simp
  have tool: "get_package_namespace ''infi.projector.tool'' = [''infi'', ''infi.projector'']"
    by (simp add: get_package_namespace_def)
  have abc: "get_package_namespace ''a.b.c'' = [''a'', ''a.b'']"
    by (simp add: get_package_namespace_def)
  show ?thesis
    using get_package_namespace_prefixes [of name] members namespace_sorted [of name]
      no_duplicates tool abc
    by blast
qed
section \<open>Running a piece of program\<close>

lemma succeed_apply: "succeed x w = (Inr x, w)"
  by (simp add: succeed_def)

lemma raise_apply: "raise err w = (Inl err, w)"
  by (simp add: raise_def)

lemma modify_apply: "modify f w = (Inr (), f w)"
  by (simp add: modify_def)

lemma bind_prog_apply:
  "bind_prog m f w = (case m w of (Inl err, w') \<Rightarrow> (Inl err, w') | (Inr x, w') \<Rightarrow> f x w')"
  by (simp add: bind_prog_def)

lemma then_prog_apply:
  "then_prog m n w = (case m w of (Inl err, w') \<Rightarrow> (Inl err, w') | (Inr x, w') \<Rightarrow> n w')"
  by (simp add: then_prog_def bind_prog_def)

lemma try_finally_apply:
  "try_finally body final w =
     (case body w of (outcome, w') \<Rightarrow>
        (case final w' of (Inl err, w'') \<Rightarrow> (Inl err, w'') | (Inr x, w'') \<Rightarrow> (outcome, w'')))"
  by (simp add: try_finally_def)

lemma when_prog_True: "when_prog True m = m"
  by (simp add: when_prog_def)

lemma when_prog_False: "when_prog False m = succeed ()"
  by (simp add: when_prog_def)

lemma block_raise_first: "m w = (Inl err, w') \<Longrightarrow> block (m # ms) w = (Inl err, w')"
  by (simp add: then_prog_apply)

section \<open>Scopes of the parameter list\<close>

text \<open>Entering a scope appends, in order and once each, the parameters that are not there.\<close>

lemma append_parameters_added:
  "\<exists>added. append_parameters parameters stack = stack @ added
           \<and> distinct added \<and> set added = set parameters - set stack"
proof (induction parameters arbitrary: stack)
  case Nil
  show ?case by simp
next
  case (Cons param parameters)
  show ?case
  proof (cases "param \<in> set stack")
    case True
    from Cons [of stack] obtain added
      where a: "append_parameters parameters stack = stack @ added"
        "distinct added" "set added = set parameters - set stack"
      by blast
    have "append_parameters (param # parameters) stack = stack @ added"
      using True a(1) by simp
    moreover have "set added = set (param # parameters) - set stack"
      using a(3) True by auto
    ultimately show ?thesis using a(2) by blast
  next
    case False
    from Cons [of "stack @ [param]"] obtain added
      where a: "append_parameters parameters (stack @ [param]) = (stack @ [param]) @ added"
        "distinct added" "set added = set parameters - set (stack @ [param])"
      by blast
    have "append_parameters (param # parameters) stack = stack @ (param # added)"
      using False a(1) by simp
    moreover have "distinct (param # added)" using a(2,3) by auto
    moreover have "set (param # added) = set (param # parameters) - set stack"
      using a(3) False by auto
    ultimately show ?thesis by blast
  qed
qed

lemma set_append_parameters:
  "set (append_parameters parameters stack) = set stack \<union> set parameters"
proof -
  obtain added where a: "append_parameters parameters stack = stack @ added"
      "set added = set parameters - set stack"
    using append_parameters_added by blast
  have "set (stack @ added) = set stack \<union> set parameters"
    unfolding set_append a(2) by blast
  then show ?thesis by (simp only: a(1))
qed

text \<open>Leaving the scope removes what was appended, when none of it was there before.\<close>

lemma remove_parameters_added:
  "set parameters \<inter> set stack = {} \<Longrightarrow> distinct added \<Longrightarrow> set added \<subseteq> set parameters \<Longrightarrow>
   remove_parameters parameters (stack @ added) = stack"
proof (induction parameters arbitrary: added)
  case Nil
  then show ?case by simp
next
  case (Cons param parameters)
  have not_in_stack: "param \<notin> set stack" using Cons.prems(1) by auto
  show ?case
  proof (cases "param \<in> set added")
    case True
    have "remove_parameters (param # parameters) (stack @ added)
            = remove_parameters parameters (stack @ remove1 param added)"
      using True not_in_stack by (simp add: remove1_append)
    moreover have "remove_parameters parameters (stack @ remove1 param added) = stack"
    proof (rule Cons.IH)
      show "set parameters \<inter> set stack = {}" using Cons.prems(1) by auto
      show "distinct (remove1 param added)" using Cons.prems(2) by simp
      show "set (remove1 param added) \<subseteq> set parameters"
        using Cons.prems(2,3) by auto
    qed
    ultimately show ?thesis by simp
  next
    case False
    have "remove_parameters (param # parameters) (stack @ added)
            = remove_parameters parameters (stack @ added)"
      using False not_in_stack by simp
    moreover have "remove_parameters parameters (stack @ added) = stack"
    proof (rule Cons.IH)
      show "set parameters \<inter> set stack = {}" using Cons.prems(1) by auto
      show "distinct added" by (rule Cons.prems(2))
      show "set added \<subseteq> set parameters" using Cons.prems(3) False by auto
    qed
    ultimately show ?thesis by simp
  qed
qed

lemma remove_append_parameters:
  assumes "set parameters \<inter> set stack = {}"
  shows "remove_parameters parameters (append_parameters parameters stack) = stack"
proof -
  obtain added where a: "append_parameters parameters stack = stack @ added"
      "distinct added" "set added = set parameters - set stack"
    using append_parameters_added by blast
  then have "set added \<subseteq> set parameters" by auto
  with assms a show ?thesis by (simp add: remove_parameters_added)
qed

lemma remove_parameters_keeps:
  "token \<in> set stack \<Longrightarrow> token \<notin> set parameters \<Longrightarrow>
   token \<in> set (remove_parameters parameters stack)"
  by (induction parameters arbitrary: stack) auto

lemma append_parameters_keeps:
  "token \<in> set stack \<Longrightarrow> token \<in> set (append_parameters parameters stack)"
  by (simp add: set_append_parameters)

text \<open>The parameter list after a scope, in terms of what the body does to it.\<close>

lemma buildout_parameters_context_stack:
  "BUILDOUT_PARAMETERS (snd (buildout_parameters_context parameters body w))
     = remove_parameters parameters
         (BUILDOUT_PARAMETERS
            (snd (body (w\<lparr>BUILDOUT_PARAMETERS :=
                            append_parameters parameters (BUILDOUT_PARAMETERS w)\<rparr>))))"
  by (simp add: buildout_parameters_context_def try_finally_def then_prog_def bind_prog_def
      modify_def split: prod.splits sum.splits)

lemma scope_restores:
  assumes "set parameters \<inter> set (BUILDOUT_PARAMETERS w) = {}"
    and "BUILDOUT_PARAMETERS
           (snd (body (w\<lparr>BUILDOUT_PARAMETERS :=
                           append_parameters parameters (BUILDOUT_PARAMETERS w)\<rparr>)))
         = append_parameters parameters (BUILDOUT_PARAMETERS w)"
  shows "BUILDOUT_PARAMETERS (snd (buildout_parameters_context parameters body w))
         = BUILDOUT_PARAMETERS w"
  using assms by (simp add: buildout_parameters_context_stack remove_append_parameters)

lemma example_stack:
  "BUILDOUT_PARAMETERS (process_start ''/project'' example_project) = [''-s'']"
  by (simp add: process_start_def BUILDOUT_PARAMETERS_at_import_def)

text \<open>
  Claim C1, as stated, fails: the process starts with \<open>-s\<close> in the list; a scope
  activated with \<open>-s\<close> and an empty body leaves the list without it.
\<close>

theorem scope_removes_token_present_before:
  "''-s'' \<in> set (BUILDOUT_PARAMETERS (process_start ''/project'' example_project))
   \<and> ''-s'' \<notin> set (BUILDOUT_PARAMETERS
        (snd (buildout_parameters_context [''-s''] (succeed ())
           (process_start ''/project'' example_project))))"
  by (simp add: buildout_parameters_context_stack example_stack succeed_apply)

text \<open>
  Claim C1, amended. A token that is in the list before a scope is entered and is not
  one of the tokens the scope is activated with is still in the list after the scope
  exits, whether the body returns or raises, provided the body itself keeps the token.
\<close>

theorem scope_keeps_other_tokens:
  assumes "token \<in> set (BUILDOUT_PARAMETERS w)"
    and "token \<notin> set parameters"
    and "\<forall>w'. token \<in> set (BUILDOUT_PARAMETERS w')
              \<longrightarrow> token \<in> set (BUILDOUT_PARAMETERS (snd (body w')))"
  shows "token \<in> set (BUILDOUT_PARAMETERS (snd (buildout_parameters_context parameters body w)))"
proof -
  let ?entered = "w\<lparr>BUILDOUT_PARAMETERS := append_parameters parameters (BUILDOUT_PARAMETERS w)\<rparr>"
  have "token \<in> set (BUILDOUT_PARAMETERS ?entered)"
    using assms(1) by (simp add: append_parameters_keeps)
  then have "token \<in> set (BUILDOUT_PARAMETERS (snd (body ?entered)))"
    using assms(3) by blast
  then show ?thesis
    using assms(2) by (simp add: buildout_parameters_context_stack remove_parameters_keeps)
qed

theorem scope_keeps_other_tokens_witness:
  "''-s'' \<in> set (BUILDOUT_PARAMETERS
        (snd (buildout_parameters_context [''-n'', ''-o''] (raise ExecutionError :: unit prog)
           (process_start ''/project'' example_project))))"
proof -
  have present: "''-s'' \<in> set (BUILDOUT_PARAMETERS (process_start ''/project'' example_project))"
    by (simp add: example_stack)
  have other: "''-s'' \<notin> set [''-n'', ''-o'']"
    by simp
  have body: "\<forall>w'. ''-s'' \<in> set (BUILDOUT_PARAMETERS w')
      \<longrightarrow> ''-s'' \<in> set (BUILDOUT_PARAMETERS (snd ((raise ExecutionError :: unit prog) w')))"
    by (simp add: raise_apply)
  show ?thesis by (rule scope_keeps_other_tokens [OF present other body])
qed

text \<open>
  Claim C4, as stated, fails: \<open>-n\<close> and \<open>-s\<close> are different tokens, and a scope with
  \<open>-n\<close> nested in a scope with \<open>-s\<close> leaves the list of the starting process, which
  holds \<open>-s\<close>, changed.
\<close>

theorem nested_scopes_lose_token_present_before:
  "set [''-n''] \<inter> set [''-s''] = {}
   \<and> BUILDOUT_PARAMETERS
        (snd (buildout_parameters_context [''-s'']
                (buildout_parameters_context [''-n''] (succeed ()))
                (process_start ''/project'' example_project)))
     \<noteq> BUILDOUT_PARAMETERS (process_start ''/project'' example_project)"
  by (simp add: buildout_parameters_context_stack example_stack succeed_apply)

text \<open>
  Claim C4, amended. For token lists T1 and T2 that share no token and hold no token
  that is already in the list: entering a scope with T2, then a nested scope with T1,
  running a body that leaves the list as it finds it, and exiting both scopes leaves the
  list equal to what it was before either scope was entered.
\<close>

theorem nested_scopes_restore_fresh_tokens:
  assumes disjoint: "set T1 \<inter> set T2 = {}"
    and fresh1: "set T1 \<inter> set (BUILDOUT_PARAMETERS w) = {}"
    and fresh2: "set T2 \<inter> set (BUILDOUT_PARAMETERS w) = {}"
    and body: "\<forall>w'. BUILDOUT_PARAMETERS (snd (body w')) = BUILDOUT_PARAMETERS w'"
  shows "BUILDOUT_PARAMETERS
           (snd (buildout_parameters_context T2 (buildout_parameters_context T1 body) w))
         = BUILDOUT_PARAMETERS w"
proof (rule scope_restores [OF fresh2])
  let ?outer = "w\<lparr>BUILDOUT_PARAMETERS := append_parameters T2 (BUILDOUT_PARAMETERS w)\<rparr>"
  have "set T1 \<inter> set (BUILDOUT_PARAMETERS ?outer) = {}"
    using disjoint fresh1 by (auto simp: set_append_parameters)
  then have "BUILDOUT_PARAMETERS (snd (buildout_parameters_context T1 body ?outer))
             = BUILDOUT_PARAMETERS ?outer"
    by (rule scope_restores) (simp add: body)
  then show "BUILDOUT_PARAMETERS (snd (buildout_parameters_context T1 body ?outer))
             = append_parameters T2 (BUILDOUT_PARAMETERS w)"
    by simp
qed

theorem nested_scopes_restore_fresh_tokens_witness:
  "BUILDOUT_PARAMETERS
     (snd (buildout_parameters_context [''-n'', ''-o'']
             (buildout_parameters_context [''buildout:develop=''] (succeed ()))
             (process_start ''/project'' example_project)))
   = [''-s'']"
proof -
  let ?w = "process_start ''/project'' example_project"
  have h1: "set [''buildout:develop=''] \<inter> set [''-n'', ''-o''] = {}" by simp
  have h2: "set [''buildout:develop=''] \<inter> set (BUILDOUT_PARAMETERS ?w) = {}"
    by (simp add: example_stack)
  have h3: "set [''-n'', ''-o''] \<inter> set (BUILDOUT_PARAMETERS ?w) = {}"
    by (simp add: example_stack)
  have h4: "\<forall>w'. BUILDOUT_PARAMETERS (snd (succeed () w')) = BUILDOUT_PARAMETERS w'"
    by (simp add: succeed_apply)
  show ?thesis
    using nested_scopes_restore_fresh_tokens [OF h1 h2 h3 h4] by (simp only: example_stack)
qed
section \<open>The configuration step of repository init\<close>

lemma set_buildout_config_result: "set_buildout_config e arguments w = (Inl TypeError, w)"
  by (simp add: set_buildout_config_def Let_def open_buildout_configfile_def
      open_buildout_configfile_filepath_def)

text \<open>
  Claim C3 does not hold of the code: \<open>set_buildout_config\<close> calls
  \<open>open_buildout_configfile\<close> with the keyword \<open>write_on_exit\<close>, which the function does
  not declare. For every project and every state the call raises \<open>TypeError\<close> before the
  configuration is read, and nothing is changed.
\<close>

theorem set_buildout_config_raises_TypeError:
  "set_buildout_config e arguments w = (Inl TypeError, w)"
  by (rule set_buildout_config_result)
section \<open>Repository init in a directory that is a repository already\<close>

text \<open>
  Claim C8. Without \<open>--mkdir\<close>, in a directory that has an entry \<open>.git\<close>, repository init
  raises \<open>SystemExit(1)\<close> and leaves the world exactly as it was: no later step runs, no
  file or directory is created or changed, no event is recorded.
\<close>

theorem init_exits_if_dotgit_exists:
  assumes "\<not> truthy (get_arg arguments ''--mkdir'')"
    and "exists e w ''.git''"
  shows "init e arguments w = (Inl (SystemExit 1), w)"
proof -
  have "exit_if_dotgit_exists e w = (Inl (SystemExit 1), w)"
    using assms(2) by (simp add: exit_if_dotgit_exists_def raise_apply)
  then have "block (init_steps e arguments) w = (Inl (SystemExit 1), w)"
    unfolding init_steps_def by (rule block_raise_first)
  then show ?thesis
    using assms(1) by (simp add: init_def create_subdir_if_necessary_def)
qed

theorem init_exits_if_dotgit_exists_witness:
  "init example_env (example_init_arguments False) (process_start ''/project'' example_repository)
   = (Inl (SystemExit 1), process_start ''/project'' example_repository)"
proof -
  have no_mkdir: "\<not> truthy (get_arg (example_init_arguments False) ''--mkdir'')"
    by (simp add: example_init_arguments_def get_arg_def)
  have dotgit: "exists example_env (process_start ''/project'' example_repository) ''.git''"
    by (simp add: exists_def isdir_def abspath_def curdir_def path_join_def process_start_def
        example_env_def example_repository_def example_project_def)
  show ?thesis by (rule init_exits_if_dotgit_exists [OF no_mkdir dotgit])
qed
section \<open>What leaves the parameter list alone\<close>

lemma keeps_parametersI:
  "(\<And>w. BUILDOUT_PARAMETERS (snd (m w)) = BUILDOUT_PARAMETERS w) \<Longrightarrow> keeps_parameters m"
  by (simp add: keeps_parameters_def)

lemma keeps_parametersD:
  "keeps_parameters m \<Longrightarrow> BUILDOUT_PARAMETERS (snd (m w)) = BUILDOUT_PARAMETERS w"
  by (simp add: keeps_parameters_def)

lemma keeps_succeed: "keeps_parameters (succeed x)"
  by (simp add: keeps_parameters_def succeed_def)

lemma keeps_raise: "keeps_parameters (raise err)"
  by (simp add: keeps_parameters_def raise_def)

lemma keeps_modify:
  "(\<And>w. BUILDOUT_PARAMETERS (f w) = BUILDOUT_PARAMETERS w) \<Longrightarrow> keeps_parameters (modify f)"
  by (simp add: keeps_parameters_def modify_def)

lemma keeps_bind:
  assumes "keeps_parameters m" "\<And>x. keeps_parameters (f x)"
  shows "keeps_parameters (bind_prog m f)"
proof (rule keeps_parametersI)
  fix w
  obtain r w' where r: "m w = (r, w')" by (cases "m w")
  then have "BUILDOUT_PARAMETERS w' = BUILDOUT_PARAMETERS w"
    using keeps_parametersD [OF assms(1), of w] by simp
  then show "BUILDOUT_PARAMETERS (snd (bind_prog m f w)) = BUILDOUT_PARAMETERS w"
    using r keeps_parametersD [OF assms(2)] by (cases r) (simp_all add: bind_prog_def)
qed

lemma keeps_then:
  "keeps_parameters m \<Longrightarrow> keeps_parameters n \<Longrightarrow> keeps_parameters (then_prog m n)"
  by (simp add: then_prog_def keeps_bind)

lemma keeps_block: "(\<And>m. m \<in> set ms \<Longrightarrow> keeps_parameters m) \<Longrightarrow> keeps_parameters (block ms)"
  by (induction ms) (simp_all add: keeps_succeed keeps_then)

lemma keeps_when: "keeps_parameters m \<Longrightarrow> keeps_parameters (when_prog c m)"
  by (simp add: when_prog_def keeps_succeed)

lemma keeps_if_world:
  "keeps_parameters m \<Longrightarrow> keeps_parameters n \<Longrightarrow> keeps_parameters (\<lambda>w. if c w then m w else n w)"
  by (simp add: keeps_parameters_def)

lemma keeps_when_world: "keeps_parameters m \<Longrightarrow> keeps_parameters (\<lambda>w. when_prog (c w) m w)"
  by (simp add: keeps_parameters_def when_prog_def succeed_def)

lemma keeps_try_finally:
  assumes "keeps_parameters body" "keeps_parameters final"
  shows "keeps_parameters (try_finally body final)"
proof (rule keeps_parametersI)
  fix w
  obtain r w' where r: "body w = (r, w')" by (cases "body w")
  obtain r' w'' where r': "final w' = (r', w'')" by (cases "final w'")
  have "BUILDOUT_PARAMETERS w'' = BUILDOUT_PARAMETERS w"
    using keeps_parametersD [OF assms(1), of w] keeps_parametersD [OF assms(2), of w'] r r'
    by simp
  then show "BUILDOUT_PARAMETERS (snd (try_finally body final w)) = BUILDOUT_PARAMETERS w"
    using r r' by (cases r') (simp_all add: try_finally_def)
qed

lemma keeps_call_external: "keeps_parameters (call_external e failure ev)"
  by (simp add: keeps_parameters_def call_external_def split: prod.splits)

lemma keeps_write_file: "keeps_parameters (write_file e path written)"
  by (simp add: keeps_parameters_def write_file_def Let_def modify_apply raise_apply)

lemma keeps_mkdir: "keeps_parameters (mkdir e path)"
  by (simp add: keeps_parameters_def mkdir_def Let_def modify_apply raise_apply)

lemma keeps_makedirs: "keeps_parameters (makedirs e path)"
  by (simp add: keeps_parameters_def makedirs_def Let_def modify_apply raise_apply)

lemma keeps_remove: "keeps_parameters (remove e path)"
  by (simp add: keeps_parameters_def remove_def Let_def modify_apply raise_apply)

lemma keeps_rmtree: "keeps_parameters (rmtree e path)"
  by (simp add: keeps_parameters_def rmtree_def Let_def modify_apply raise_apply)

lemma keeps_chdir_and_log: "keeps_parameters (chdir_and_log path)"
  by (simp add: keeps_parameters_def chdir_and_log_def Let_def modify_apply raise_apply)

lemma keeps_append_file: "keeps_parameters (append_file e path added)"
  using keeps_parametersD [OF keeps_write_file]
  by (simp add: keeps_parameters_def append_file_def raise_def
      split: option.splits content.splits)

lemma keeps_copy: "keeps_parameters (copy e src dst)"
  using keeps_parametersD [OF keeps_write_file]
  by (simp add: keeps_parameters_def copy_def raise_def split: option.splits)

lemma keeps_chdir:
  assumes "keeps_parameters body"
  shows "keeps_parameters (chdir e path body)"
proof (rule keeps_parametersI)
  fix w
  have "keeps_parameters (then_prog (chdir_and_log (abspath e w path))
          (try_finally body (chdir_and_log (abspath e w curdir))))"
    by (intro keeps_then keeps_try_finally keeps_chdir_and_log assms)
  then show "BUILDOUT_PARAMETERS (snd (chdir e path body w)) = BUILDOUT_PARAMETERS w"
    by (simp add: chdir_def Let_def keeps_parametersD)
qed

lemma keeps_open_buildout_configfile:
  assumes "editor_keeps_parameters body"
  shows "keeps_parameters (open_buildout_configfile e keywords body)"
proof (rule keeps_parametersI)
  fix w
  show "BUILDOUT_PARAMETERS (snd (open_buildout_configfile e keywords body w))
        = BUILDOUT_PARAMETERS w"
  proof (cases "open_buildout_configfile_filepath keywords")
    case (Inl err)
    then show ?thesis by (simp add: open_buildout_configfile_def)
  next
    case (Inr filepath)
    show ?thesis
    proof (cases "config_read e w filepath")
      case (Inl err)
      with Inr show ?thesis by (simp add: open_buildout_configfile_def)
    next
      case read: (Inr parser)
      obtain outcome parser' w' where b: "body parser w = (outcome, parser', w')"
        by (cases "body parser w")
      have "BUILDOUT_PARAMETERS (snd (snd (body parser w))) = BUILDOUT_PARAMETERS w"
        using assms unfolding editor_keeps_parameters_def by blast
      then have "BUILDOUT_PARAMETERS w' = BUILDOUT_PARAMETERS w"
        using b by simp
      moreover have "keeps_parameters
          (try_finally (\<lambda>w. (outcome, w)) (write_file e filepath (Ini (document_of_config parser'))))"
        by (intro keeps_try_finally keeps_write_file) (simp add: keeps_parameters_def)
      ultimately show ?thesis
        using Inr read b keeps_parametersD [of _ w']
        by (simp add: open_buildout_configfile_def)
    qed
  qed
qed

lemma keeps_execute_assert_success: "keeps_parameters (execute_assert_success e args)"
  by (simp add: execute_assert_success_def keeps_call_external)

lemma keeps_execute_with_python: "keeps_parameters (execute_with_python e commandline)"
  by (simp add: execute_with_python_def Let_def keeps_execute_assert_success)

lemma keeps_execute_with_buildout: "keeps_parameters (execute_with_buildout e commandline)"
  using keeps_parametersD [OF keeps_execute_assert_success]
  by (simp add: keeps_parameters_def execute_with_buildout_def Let_def)

lemma keeps_library_call: "keeps_parameters (library_call e method args)"
  by (simp add: library_call_def keeps_call_external)

lemma keeps_create_cache_directories: "keeps_parameters (create_cache_directories e)"
  unfolding create_cache_directories_def
proof (rule keeps_bind)
  show "keeps_parameters
          (open_buildout_configfile e [] (editor_get ''buildout'' ''download-cache''))"
    by (rule keeps_open_buildout_configfile)
      (simp add: editor_keeps_parameters_def editor_get_def)
next
  fix cachedir
  show "keeps_parameters
          (case cachedir of
             PyStr directory \<Rightarrow>
               (\<lambda>w. let cache_dist = path_join e directory ''dist''
                     in when_prog (\<not> exists e w cache_dist) (makedirs e cache_dist) w)
           | _ \<Rightarrow> raise AttributeError)"
    by (cases cachedir) (simp_all add: keeps_raise Let_def keeps_when_world keeps_makedirs)
qed

lemma keeps_bootstrap_if_necessary: "keeps_parameters (bootstrap_if_necessary e arguments)"
  unfolding bootstrap_if_necessary_def
  by (intro keeps_if_world keeps_raise keeps_succeed keeps_execute_with_python)

lemma keeps_install_sections_by_recipe: "keeps_parameters (install_sections_by_recipe e recipe)"
  unfolding install_sections_by_recipe_def
  by (intro keeps_bind keeps_open_buildout_configfile keeps_when keeps_execute_with_buildout)
    (simp add: editor_keeps_parameters_def)

lemma keeps_clean_build: "keeps_parameters (clean_build e)"
  unfolding clean_build_def Let_def
  by (rule keeps_block) (auto intro: keeps_when_world keeps_remove keeps_rmtree)

lemma keeps_is_module_installed: "keeps_parameters (is_module_installed e module_name)"
proof (rule keeps_parametersI)
  fix w
  define args where "args = split_whitespace (''bin/python -c import '' @ module_name)"
  obtain r w' where r: "execute_assert_success e args w = (r, w')"
    by (cases "execute_assert_success e args w")
  then have "BUILDOUT_PARAMETERS w' = BUILDOUT_PARAMETERS w"
    using keeps_parametersD [OF keeps_execute_assert_success, of e args w] by simp
  then show "BUILDOUT_PARAMETERS (snd (is_module_installed e module_name w))
             = BUILDOUT_PARAMETERS w"
    using r unfolding is_module_installed_def args_def [symmetric]
    by (simp split: sum.splits error.splits)
qed

lemma keeps_install_readline: "keeps_parameters (install_readline e)"
  unfolding install_readline_def Let_def
  by (simp add: keeps_succeed keeps_bind keeps_is_module_installed keeps_execute_assert_success)


lemma keeps_create_subdir_if_necessary:
  assumes "keeps_parameters body"
  shows "keeps_parameters (create_subdir_if_necessary e arguments body)"
proof (cases "truthy (get_arg arguments ''--mkdir'')")
  case False
  then show ?thesis using assms by (simp add: create_subdir_if_necessary_def)
next
  case True
  show ?thesis
  proof (cases "py_or (get_arg arguments ''<project_name>'') (get_arg arguments ''<origin>'')")
    case (PyStr name)
    then show ?thesis
      using True unfolding create_subdir_if_necessary_def Let_def
      by (simp add: keeps_if_world keeps_raise keeps_then keeps_makedirs keeps_chdir assms)
  qed (use True in \<open>simp_all add: create_subdir_if_necessary_def keeps_raise\<close>)
qed

lemma keeps_init_steps:
  assumes "m \<in> set (init_steps e arguments)"
  shows "keeps_parameters m"
proof -
  have dotgit: "keeps_parameters (exit_if_dotgit_exists e)"
    unfolding exit_if_dotgit_exists_def by (intro keeps_if_world keeps_raise keeps_succeed)
  have git: "keeps_parameters (git_init e arguments)"
    unfolding git_init_def by (rule keeps_block) (auto intro: keeps_library_call)
  have flow: "keeps_parameters (gitflow_init e)"
    by (simp add: gitflow_init_def keeps_library_call)
  have release: "keeps_parameters (release_initial_version e)"
    unfolding release_initial_version_def release_version_with_git_flow_def
    by (rule keeps_block) (auto intro: keeps_library_call)
  have checkout: "keeps_parameters (git_checkout_develop e)"
    by (simp add: git_checkout_develop_def keeps_library_call)
  have files: "keeps_parameters (add_initial_files e)"
    unfolding add_initial_files_def by (rule keeps_block) (auto intro: keeps_copy)
  have config: "keeps_parameters (set_buildout_config e arguments)"
    by (simp add: keeps_parameters_def set_buildout_config_result)
  have src: "keeps_parameters (generate_src e arguments)"
    unfolding generate_src_def Let_def
    by (cases "get_project_name arguments")
      (auto intro!: keeps_then keeps_mkdir keeps_raise keeps_block keeps_write_file)
  have ignore: "keeps_parameters (append_to_gitignore e arguments)"
    unfolding append_to_gitignore_def
    by (cases "get_project_name arguments") (simp_all add: keeps_raise keeps_append_file)
  have commit: "keeps_parameters (commit_all e)"
    unfolding commit_all_def by (rule keeps_block) (auto intro: keeps_library_call)
  from assms have "m \<in> {exit_if_dotgit_exists e, git_init e arguments, gitflow_init e,
      release_initial_version e, git_checkout_develop e, add_initial_files e,
      set_buildout_config e arguments, generate_src e arguments,
      append_to_gitignore e arguments, commit_all e}"
    by (simp add: init_steps_def)
  then show ?thesis
    using dotgit git flow release checkout files config src ignore commit by blast
qed

lemma keeps_init: "keeps_parameters (init e arguments)"
  unfolding init_def
  by (intro keeps_create_subdir_if_necessary keeps_block keeps_init_steps)

lemma keeps_clone: "keeps_parameters (clone e arguments)"
  unfolding clone_def Let_def git_clone_def git_checkout_develop_def gitflow_init_def
  by (intro keeps_create_subdir_if_necessary keeps_block) (auto intro: keeps_library_call)

text \<open>
  Claim C5, as stated, fails: the module is imported with \<open>-s\<close> in the list, so the list
  of a starting process is not empty.
\<close>

theorem parameters_not_empty_at_start:
  "BUILDOUT_PARAMETERS (process_start ''/project'' example_project) \<noteq> []"
  by (simp add: process_start_def BUILDOUT_PARAMETERS_at_import_def)

text \<open>
  Claim C5, amended. At process start, before any scope has been entered, the list
  holds the single token \<open>-s\<close>. A scope changes it by appending at entry and removing at
  exit; everything else the helper module, the build plugin and the repository plugin do
  outside a scope (running an external program, the cache-directory step, the bootstrap
  step, installing sections, cleaning, installing readline, repository init and clone)
  leaves the list as it finds it.
\<close>

theorem parameters_start_and_change_in_scopes_only:
  "BUILDOUT_PARAMETERS (process_start directory file_system) = [''-s'']
   \<and> BUILDOUT_PARAMETERS (snd (buildout_parameters_context parameters body w))
       = remove_parameters parameters
           (BUILDOUT_PARAMETERS
              (snd (body (w\<lparr>BUILDOUT_PARAMETERS :=
                              append_parameters parameters (BUILDOUT_PARAMETERS w)\<rparr>))))
   \<and> keeps_parameters (execute_assert_success e args)
   \<and> keeps_parameters (execute_with_python e commandline)
   \<and> keeps_parameters (execute_with_buildout e commandline)
   \<and> keeps_parameters (create_cache_directories e)
   \<and> keeps_parameters (bootstrap_if_necessary e arguments)
   \<and> keeps_parameters (install_sections_by_recipe e recipe)
   \<and> keeps_parameters (clean_build e)
   \<and> keeps_parameters (install_readline e)
   \<and> keeps_parameters (init e arguments)
   \<and> keeps_parameters (clone e arguments)"
  by (simp add: process_start_def BUILDOUT_PARAMETERS_at_import_def
      buildout_parameters_context_stack
      keeps_execute_assert_success keeps_execute_with_python keeps_execute_with_buildout
      keeps_create_cache_directories keeps_bootstrap_if_necessary
      keeps_install_sections_by_recipe keeps_clean_build keeps_install_readline
      keeps_init keeps_clone)

theorem parameters_start_and_change_in_scopes_only_witness:
  "BUILDOUT_PARAMETERS (process_start ''/project'' example_project) = [''-s'']
   \<and> BUILDOUT_PARAMETERS
        (snd (bootstrap_if_necessary example_env example_scripts_arguments
                (process_start ''/project'' example_project))) = [''-s'']
   \<and> BUILDOUT_PARAMETERS
        (snd (init example_env (example_init_arguments True)
                (process_start ''/project'' example_project))) = [''-s'']"
proof -
  note facts = parameters_start_and_change_in_scopes_only
    [where e = example_env and directory = "''/project''" and file_system = example_project]
  have start: "BUILDOUT_PARAMETERS (process_start ''/project'' example_project) = [''-s'']"
    using facts by blast
  have "keeps_parameters (bootstrap_if_necessary example_env example_scripts_arguments)"
    using facts by blast
  moreover have "keeps_parameters (init example_env (example_init_arguments True))"
    using facts by blast
  ultimately show ?thesis
    using start by (simp add: keeps_parameters_def)
qed
section \<open>The bootstrap step\<close>

lemma split_bootstrap: "split_whitespace ''bootstrap.py -d -t'' = [''bootstrap.py'', ''-d'', ''-t'']"
  by (simp add: split_whitespace_def isspace_def)

lemma execute_with_python_apply:
  "execute_with_python e (Line ''bootstrap.py -d -t'') w =
     call_external e ExecutionError
       (Execute ([if \<not> is_windows e then sys_executable e else executable_from_shebang_line e]
                 @ (if \<not> sys_real_prefix e then [''-S''] else [])
                 @ [''bootstrap.py'', ''-d'', ''-t''])) w"
  by (simp add: execute_with_python_def Let_def execute_assert_success_def split_bootstrap
      is_running_inside_virtualenv_def)

lemma call_external_events:
  "events (snd (call_external e failure ev w)) = events w @ [ev]"
  by (simp add: call_external_def split: prod.splits)

lemma call_external_outcome:
  "fst (call_external e failure ev w) = Inr () \<or> fst (call_external e failure ev w) = Inl failure"
  by (simp add: call_external_def split: prod.splits)

text \<open>
  Claim C6. The bootstrap step raises \<open>SystemExit(1)\<close> exactly when \<open>bootstrap.py\<close> does
  not exist, and then changes nothing. When it exists, the step runs the interpreter on
  \<open>bootstrap.py -d -t\<close>, once, exactly when \<open>bin/buildout\<close> is no executable or
  \<open>--force-bootstrap\<close> is set; otherwise it returns without an error and without any
  effect.
\<close>

theorem bootstrap_if_necessary_gate:
  "(fst (bootstrap_if_necessary e arguments w) = Inl (SystemExit 1)
      \<longleftrightarrow> \<not> exists e w ''bootstrap.py'')
   \<and> (\<not> exists e w ''bootstrap.py'' \<longrightarrow> snd (bootstrap_if_necessary e arguments w) = w)
   \<and> (exists e w ''bootstrap.py'' \<longrightarrow>
        (if \<not> is_executable_exists e w (path_join e ''bin'' ''buildout'')
            \<or> truthy (get_arg_default arguments ''--force-bootstrap'' (PyBool False))
         then bootstrap_if_necessary e arguments w
                = execute_with_python e (Line ''bootstrap.py -d -t'') w
              \<and> events (snd (bootstrap_if_necessary e arguments w))
                = events w
                  @ [Execute ([if \<not> is_windows e then sys_executable e
                               else executable_from_shebang_line e]
                              @ (if \<not> sys_real_prefix e then [''-S''] else [])
                              @ [''bootstrap.py'', ''-d'', ''-t''])]
         else bootstrap_if_necessary e arguments w = (Inr (), w)))"
proof (cases "exists e w ''bootstrap.py''")
  case False
  then show ?thesis by (simp add: bootstrap_if_necessary_def raise_apply)
next
  case True
  let ?run = "\<not> is_executable_exists e w (path_join e ''bin'' ''buildout'')
      \<or> truthy (get_arg_default arguments ''--force-bootstrap'' (PyBool False))"
  let ?ev = "Execute ([if \<not> is_windows e then sys_executable e
                               else executable_from_shebang_line e]
                              @ (if \<not> sys_real_prefix e then [''-S''] else [])
                              @ [''bootstrap.py'', ''-d'', ''-t''])"
  show ?thesis
  proof (cases ?run)
    case run: True
    have eq: "bootstrap_if_necessary e arguments w
          = execute_with_python e (Line ''bootstrap.py -d -t'') w"
      using True run by (simp add: bootstrap_if_necessary_def)
    have ev: "events (snd (bootstrap_if_necessary e arguments w)) = events w @ [?ev]"
      unfolding eq execute_with_python_apply by (rule call_external_events)
    have "fst (bootstrap_if_necessary e arguments w) \<noteq> Inl (SystemExit 1)"
      unfolding eq execute_with_python_apply
      using call_external_outcome [of e ExecutionError ?ev w] by auto
    then show ?thesis using True run eq ev by simp
  next
    case skip: False
    then have "bootstrap_if_necessary e arguments w = (Inr (), w)"
      using True by (simp add: bootstrap_if_necessary_def succeed_apply)
    then show ?thesis using True skip by simp
  qed
qed

lemma example_cwd: "cwd (process_start ''/project'' file_system) = ''/project''"
  by (simp add: process_start_def)

lemma example_fs: "fs (process_start ''/project'' file_system) = file_system"
  by (simp add: process_start_def)

theorem bootstrap_if_necessary_gate_witness:
  "exists example_env (process_start ''/project'' example_project) ''bootstrap.py''
   \<and> bootstrap_if_necessary example_env example_scripts_arguments
         (process_start ''/project'' example_project)
       = (Inr (), process_start ''/project'' example_project)
   \<and> \<not> exists example_env (process_start ''/project'' example_project_without_bootstrap)
          ''bootstrap.py''
   \<and> bootstrap_if_necessary example_env example_scripts_arguments
         (process_start ''/project'' example_project_without_bootstrap)
       = (Inl (SystemExit 1), process_start ''/project'' example_project_without_bootstrap)"
proof -
  let ?w = "process_start ''/project'' example_project"
  let ?v = "process_start ''/project'' example_project_without_bootstrap"
  have present: "exists example_env ?w ''bootstrap.py''"
    by (simp add: exists_def isdir_def isfile_def abspath_def curdir_def path_join_def
        example_cwd example_fs example_env_def example_project_def)
  have absent: "\<not> exists example_env ?v ''bootstrap.py''"
    by (simp add: exists_def isdir_def isfile_def abspath_def curdir_def path_join_def
        example_cwd example_fs example_env_def example_project_def
        example_project_without_bootstrap_def)
  have tool: "is_executable_exists example_env ?w (path_join example_env ''bin'' ''buildout'')"
    by (simp add: path_join_def example_cwd example_fs example_env_def example_project_def)
  have no_force:
    "\<not> truthy (get_arg_default example_scripts_arguments ''--force-bootstrap'' (PyBool False))"
    by (simp add: get_arg_default_def example_scripts_arguments_def)
  have run: "bootstrap_if_necessary example_env example_scripts_arguments ?w = (Inr (), ?w)"
    using bootstrap_if_necessary_gate [of example_env example_scripts_arguments ?w] present tool no_force by simp
  have stop: "bootstrap_if_necessary example_env example_scripts_arguments ?v
      = (Inl (SystemExit 1), ?v)"
    using bootstrap_if_necessary_gate [of example_env example_scripts_arguments ?v] absent
    by (simp add: prod_eq_iff)
  show ?thesis using present absent run stop by blast
qed

section \<open>The working directory\<close>
























section \<open>The build pipeline\<close>





lemma open_buildout_configfile_apply:
  assumes "config_read e w ''buildout.cfg'' = Inr parser"
    and "body parser w = (outcome, parser', w')"
    and "abspath e w' ''buildout.cfg'' \<notin> dirs (fs w')"
    and "parent_directory e (abspath e w' ''buildout.cfg'') \<in> dirs (fs w')"
  shows "open_buildout_configfile e [] body w =
     (outcome,
      w'\<lparr>fs := (fs w')\<lparr>files := (files (fs w'))(abspath e w' ''buildout.cfg''
                                    \<mapsto> Ini (document_of_config parser'))\<rparr>,
         events := events w' @ [FileWrite (abspath e w' ''buildout.cfg'')]\<rparr>)"
  using assms
  by (simp add: open_buildout_configfile_def open_buildout_configfile_filepath_def
      try_finally_apply write_file_def isdir_def Let_def modify_apply)

















lemma create_cache_directories_step:
  assumes read: "config_read e w ''buildout.cfg'' = Inr parser"
    and cache: "config_get parser ''buildout'' ''download-cache'' = Inr (PyStr cachedir)"
    and no_directory: "abspath e w ''buildout.cfg'' \<notin> dirs (fs w)"
    and parent: "parent_directory e (abspath e w ''buildout.cfg'') \<in> dirs (fs w)"
  shows "create_cache_directories e w
     = when_prog
         (\<not> exists e
              (w\<lparr>fs := (fs w)\<lparr>files := (files (fs w))(abspath e w ''buildout.cfg''
                                    \<mapsto> Ini (document_of_config parser))\<rparr>,
                 events := events w @ [FileWrite (abspath e w ''buildout.cfg'')]\<rparr>)
              (path_join e cachedir ''dist''))
         (makedirs e (path_join e cachedir ''dist''))
         (w\<lparr>fs := (fs w)\<lparr>files := (files (fs w))(abspath e w ''buildout.cfg''
                                    \<mapsto> Ini (document_of_config parser))\<rparr>,
            events := events w @ [FileWrite (abspath e w ''buildout.cfg'')]\<rparr>)"
proof -
  let ?w' = "w\<lparr>fs := (fs w)\<lparr>files := (files (fs w))(abspath e w ''buildout.cfg''
                                    \<mapsto> Ini (document_of_config parser))\<rparr>,
          events := events w @ [FileWrite (abspath e w ''buildout.cfg'')]\<rparr>"
  have opened: "open_buildout_configfile e [] (editor_get ''buildout'' ''download-cache'') w
        = (Inr (PyStr cachedir), ?w')"
    by (rule open_buildout_configfile_apply [OF read _ no_directory parent])
      (simp add: editor_get_def cache)
  then show ?thesis
    by (simp add: create_cache_directories_def bind_prog_apply Let_def)
qed

lemma create_cache_directories_apply:
  assumes read: "config_read e w ''buildout.cfg'' = Inr parser"
    and cache: "config_get parser ''buildout'' ''download-cache'' = Inr (PyStr cachedir)"
    and dist: "exists e w (path_join e cachedir ''dist'')"
    and no_directory: "abspath e w ''buildout.cfg'' \<notin> dirs (fs w)"
    and parent: "parent_directory e (abspath e w ''buildout.cfg'') \<in> dirs (fs w)"
  shows "create_cache_directories e w
     = (Inr (),
        w\<lparr>fs := (fs w)\<lparr>files := (files (fs w))(abspath e w ''buildout.cfg''
                                    \<mapsto> Ini (document_of_config parser))\<rparr>,
          events := events w @ [FileWrite (abspath e w ''buildout.cfg'')]\<rparr>)"
proof -
  let ?w' = "w\<lparr>fs := (fs w)\<lparr>files := (files (fs w))(abspath e w ''buildout.cfg''
                                    \<mapsto> Ini (document_of_config parser))\<rparr>,
          events := events w @ [FileWrite (abspath e w ''buildout.cfg'')]\<rparr>"
  have "exists e ?w' (path_join e cachedir ''dist'')"
    using dist by (auto simp: exists_def isdir_def isfile_def abspath_def)
  then show ?thesis
    by (simp add: create_cache_directories_step [OF read cache no_directory parent] when_prog_False
        succeed_apply)
qed

lemma example_abspath:
  "abspath example_env (process_start ''/project'' file_system) ''buildout.cfg''
     = ''/project/buildout.cfg''"
  "abspath example_env (process_start ''/project'' file_system) ''bootstrap.py''
     = ''/project/bootstrap.py''"
  "abspath example_env (process_start ''/project'' file_system) ''/cache/dist'' = ''/cache/dist''"
  by (simp_all add: abspath_def curdir_def path_join_def example_env_def process_start_def)

lemma example_path_join:
  "path_join example_env ''/cache'' ''dist'' = ''/cache/dist''"
  "path_join example_env ''bin'' ''buildout'' = ''bin/buildout''"
  by (simp_all add: path_join_def example_env_def)

lemma example_files:
  "files example_project ''/project/buildout.cfg'' = Some (Ini example_buildout_cfg)"
  "files example_project_without_bootstrap ''/project/buildout.cfg''
     = Some (Ini example_buildout_cfg)"
  "files example_project ''/project/bootstrap.py'' = Some (Text [])"
  "files example_project_without_bootstrap ''/project/bootstrap.py'' = None"
  "files example_project ''/project/bin/buildout'' = Some (Text [])"
  "files example_project_without_bootstrap ''/project/bin/buildout'' = Some (Text [])"
  by (simp_all add: example_project_def example_project_without_bootstrap_def)

lemma example_dirs:
  "''/cache/dist'' \<in> dirs example_project"
  "''/cache/dist'' \<in> dirs example_project_without_bootstrap"
  "''/project/bootstrap.py'' \<notin> dirs example_project_without_bootstrap"
  "''/project/buildout.cfg'' \<notin> dirs example_project"
  "''/project/buildout.cfg'' \<notin> dirs example_project_without_bootstrap"
  "''/project'' \<in> dirs example_project"
  "''/project'' \<in> dirs example_project_without_bootstrap"
  by (simp_all add: example_project_def example_project_without_bootstrap_def)

lemma example_parent_directory:
  "parent_directory example_env ''/project/buildout.cfg'' = ''/project''"
  by (simp add: parent_directory_def example_env_def)

lemma example_writable:
  "abspath example_env (process_start ''/project'' example_project) ''buildout.cfg''
     \<notin> dirs (fs (process_start ''/project'' example_project))"
  "parent_directory example_env
       (abspath example_env (process_start ''/project'' example_project) ''buildout.cfg'')
     \<in> dirs (fs (process_start ''/project'' example_project))"
  "abspath example_env (process_start ''/project'' example_project_without_bootstrap)
       ''buildout.cfg''
     \<notin> dirs (fs (process_start ''/project'' example_project_without_bootstrap))"
  "parent_directory example_env
       (abspath example_env (process_start ''/project'' example_project_without_bootstrap)
          ''buildout.cfg'')
     \<in> dirs (fs (process_start ''/project'' example_project_without_bootstrap))"
  by (simp_all add: example_abspath example_parent_directory example_fs example_dirs)

lemma example_read:
  "config_read example_env (process_start ''/project'' example_project) ''buildout.cfg''
     = Inr (config_of_document example_buildout_cfg)"
  "config_read example_env (process_start ''/project'' example_project_without_bootstrap)
       ''buildout.cfg''
     = Inr (config_of_document example_buildout_cfg)"
  by (simp_all add: config_read_def example_abspath example_fs example_files)

lemma example_cache:
  "config_get (config_of_document example_buildout_cfg) ''buildout'' ''download-cache''
     = Inr (PyStr ''/cache'')"
  by (simp add: config_get_def config_of_document_def example_buildout_cfg_def)

lemma example_dist:
  "exists example_env (process_start ''/project'' example_project)
     (path_join example_env ''/cache'' ''dist'')"
  "exists example_env (process_start ''/project'' example_project_without_bootstrap)
     (path_join example_env ''/cache'' ''dist'')"
  by (simp_all add: exists_def isdir_def example_path_join example_abspath example_fs
      example_dirs)

lemma example_arguments:
  "truthy (get_arg_default example_scripts_arguments ''--no-submodules'' (PyBool False))"
  "truthy (get_arg_default example_scripts_arguments ''--no-readline'' (PyBool False))"
  "\<not> truthy (get_arg_default example_scripts_arguments ''--clean'' (PyBool False))"
  "\<not> truthy (get_arg_default example_scripts_arguments ''--force-bootstrap'' (PyBool False))"
  "\<not> truthy (get_arg_default example_scripts_arguments ''--no-setup-py'' (PyBool False))"
  "\<not> truthy (get_arg_default example_scripts_arguments ''--no-scripts'' (PyBool False))"
  "\<not> truthy (get_arg_default example_scripts_arguments ''--use-isolated-python'' (PyBool False))"
  by (simp_all add: get_arg_default_def example_scripts_arguments_def)


lemma example_events: "events (process_start directory file_system) = []"
  by (simp add: process_start_def)


text \<open>
  Claim C2 does not hold of the code: \<open>open_buildout_configfile\<close> has no read-only mode and
  writes the file back at the end of every scope. The cache-directory step, which only
  reads \<open>download-cache\<close>, run in a project whose cache directory exists, returns normally
  and has opened \<open>buildout.cfg\<close> for writing.
\<close>

theorem cache_directory_step_writes_configuration:
  "fst (create_cache_directories example_env (process_start ''/project'' example_project))
     = Inr ()
   \<and> events (snd (create_cache_directories example_env
                     (process_start ''/project'' example_project)))
     = [FileWrite ''/project/buildout.cfg'']"
  by (simp add: create_cache_directories_apply
        [OF example_read(1) example_cache example_dist(1) example_writable(1,2)]
      example_abspath example_events)


text \<open>
  The steps that run can raise as well. With a regular file where the cache directory
  should be, \<open>os.makedirs\<close> cannot create \<open>/cache/dist\<close>: the cache-directory step, and
  with it the run, ends with \<open>OSError\<close>, although \<open>bootstrap.py\<close> and \<open>bin/buildout\<close> are
  in place and every external call would succeed.
\<close>

lemma example_parent_dirs: "parent_dirs example_env ''/cache/dist'' = [''/cache'']"
  by (simp add: parent_dirs_def example_env_def)

lemma scripts_raises_OSError_on_cache_file:
  "fst (scripts example_env example_scripts_arguments
          (process_start ''/project'' example_project_with_cache_file)) = Inl OSError"
proof -
  let ?w = "process_start ''/project'' example_project_with_cache_file"
  define w1 where
    "w1 = ?w\<lparr>fs := (fs ?w)\<lparr>files := (files (fs ?w))(abspath example_env ?w ''buildout.cfg''
                    \<mapsto> Ini (document_of_config (config_of_document example_buildout_cfg)))\<rparr>,
          events := events ?w @ [FileWrite (abspath example_env ?w ''buildout.cfg'')]\<rparr>"
  have files:
    "files example_project_with_cache_file ''/project/buildout.cfg''
       = Some (Ini example_buildout_cfg)"
    "files example_project_with_cache_file ''/cache'' = Some (Text [])"
    "files example_project_with_cache_file ''/cache/dist'' = None"
    by (simp_all add: example_project_with_cache_file_def example_project_def)
  have directories:
    "dirs example_project_with_cache_file = {''/project'', ''/project/bin''}"
    by (simp add: example_project_with_cache_file_def)
  have read: "config_read example_env ?w ''buildout.cfg''
      = Inr (config_of_document example_buildout_cfg)"
    by (simp add: config_read_def example_abspath example_fs files)
  have no_directory: "abspath example_env ?w ''buildout.cfg'' \<notin> dirs (fs ?w)"
    by (simp add: example_abspath example_fs directories)
  have parent: "parent_directory example_env (abspath example_env ?w ''buildout.cfg'')
      \<in> dirs (fs ?w)"
    by (simp add: example_abspath example_parent_directory example_fs directories)
  have step: "create_cache_directories example_env ?w
      = when_prog (\<not> exists example_env w1 (path_join example_env ''/cache'' ''dist''))
          (makedirs example_env (path_join example_env ''/cache'' ''dist'')) w1"
    unfolding w1_def
    by (rule create_cache_directories_step [OF read example_cache no_directory parent])
  have after:
    "dirs (fs w1) = {''/project'', ''/project/bin''}"
    "files (fs w1) ''/cache'' = Some (Text [])"
    "files (fs w1) ''/cache/dist'' = None"
    by (simp_all add: w1_def example_abspath example_fs files directories)
  have target: "abspath example_env w1 ''/cache/dist'' = ''/cache/dist''"
    by (simp add: abspath_def curdir_def path_join_def example_env_def)
  have missing: "\<not> exists example_env w1 ''/cache/dist''"
    by (simp add: exists_def isdir_def isfile_def target after)
  have "makedirs example_env ''/cache/dist'' w1 = (Inl OSError, w1)"
    using missing
    by (simp add: makedirs_def Let_def target example_parent_dirs raise_apply after)
  then have "create_cache_directories example_env ?w = (Inl OSError, w1)"
    using missing by (simp add: step example_path_join when_prog_True)
  then show ?thesis
    using example_arguments(3)
    by (simp add: scripts_def when_prog_False then_prog_apply succeed_apply)
qed


end
